theory Spec2Isabelle
  imports Main "HOL-Library.Word"
begin

section \<open>Deployment manifest parser (deployment/manifest/parser.go)\<close>

text \<open>
  A shallow embedding of the Go package \<open>manifest\<close>: the raw structs the YAML decoder
  fills, the typed structs the parser builds, and the functions \<open>Parse\<close>,
  \<open>parseDeploymentManifest\<close> and the four section parsers.

  Conventions.
  \<^item> A Go slice or map may be \<open>nil\<close>; both are modelled with \<open>option\<close>, \<open>None\<close> being
    \<open>nil\<close> and \<open>Some []\<close> an allocated empty value. \<open>len\<close> and \<open>range\<close> treat the two alike.
  \<^item> A Go function returning \<open>(T, error)\<close> returns a pair whose second component is
    \<open>None\<close> for a \<open>nil\<close> error, so that what is returned beside an error stays visible.
  \<^item> Go's \<open>int\<close> is modelled as \<open>int\<close>: the parser only copies such values.
  \<^item> A pointer \<open>*string\<close> is a \<open>string option\<close>.
\<close>

subsection \<open>Dynamic values and property trees\<close>

text \<open>
  The decoder produces \<open>interface{}\<close> values. \<open>DOther t\<close> stands for a value of any
  runtime type \<open>t\<close> that is neither a scalar, a sequence nor a mapping. A floating
  point scalar is kept as its 64 bit pattern, since it is only ever copied.
\<close>

datatype dyn =
    DNull
  | DBool bool
  | DInt int
  | DFloat "64 word"
  | DString string
  | DSeq "dyn list"
  | DMap "(dyn \<times> dyn) list"
  | DOther string

text \<open>\<open>map[interface{}]interface{}\<close>, entries in document order; \<open>None\<close> is the nil map.\<close>

type_synonym raw_map = "(dyn \<times> dyn) list option"

text \<open>
  Modelled from the spec: the type \<open>biproperty.Property\<close> of package \<open>common/property\<close>
  (section 3, Property Tree): a scalar, an ordered sequence of trees, or a mapping from
  strings to trees in insertion order.
\<close>

datatype Property =
    PNull
  | PBool bool
  | PInt int
  | PFloat "64 word"
  | PString string
  | PList "Property list"
  | PMap "(string \<times> Property) list"

text \<open>\<open>biproperty.Map\<close>; \<open>None\<close> is the nil map, \<open>Some []\<close> a built empty mapping.\<close>

type_synonym Map = "(string \<times> Property) list option"

subsection \<open>Slices\<close>

type_synonym 'a slice = "'a list option"

definition slice_len :: "'a slice \<Rightarrow> nat" where
  "slice_len s = (case s of None \<Rightarrow> 0 | Some xs \<Rightarrow> length xs)"

definition slice_elems :: "'a slice \<Rightarrow> 'a list" where
  "slice_elems s = (case s of None \<Rightarrow> [] | Some xs \<Rightarrow> xs)"

subsection \<open>Raw structs (parser.go, lines 23-80)\<close>

record UpdateSpec =
  UpdateWatchTime :: "string option"

record network =
  Name :: string
  Type :: string
  CloudProperties :: raw_map
  IP :: string
  Netmask :: string
  Gateway :: string
  DNS :: "string slice"

record resourcePool =
  Name :: string
  Network :: string
  CloudProperties :: raw_map
  Env :: raw_map

record diskPool =
  Name :: string
  DiskSize :: int
  CloudProperties :: raw_map

record releaseJobRef =
  Name :: string
  Release :: string

record jobNetwork =
  Name :: string
  Default :: "string slice"
  StaticIPs :: "string slice"

record job =
  Name :: string
  Instances :: int
  Lifecycle :: string
  Templates :: "releaseJobRef slice"
  Networks :: "jobNetwork slice"
  PersistentDisk :: int
  PersistentDiskPool :: string
  Properties :: raw_map

record manifest =
  Name :: string
  Update :: UpdateSpec
  Networks :: "network slice"
  ResourcePools :: "resourcePool slice"
  DiskPools :: "diskPool slice"
  Jobs :: "job slice"
  Properties :: raw_map

text \<open>The zero value \<open>manifest{}\<close> that \<open>Parse\<close> hands to the decoder.\<close>

definition manifest_zero :: manifest where
  "manifest_zero =
     \<lparr>manifest.Name = [], Update = \<lparr>UpdateSpec.UpdateWatchTime = None\<rparr>,
      Networks = None, ResourcePools = None, DiskPools = None, Jobs = None,
      Properties = None\<rparr>"

subsection \<open>Typed structs\<close>

text \<open>
  The declarations of \<open>Manifest\<close>, \<open>Update\<close>, \<open>WatchTime\<close>, \<open>Network\<close>,
  \<open>ResourcePool\<close>, \<open>DiskPool\<close>, \<open>Job\<close>, \<open>ReleaseJobRef\<close>, \<open>JobNetwork\<close> and of the
  named string types \<open>NetworkType\<close>, \<open>JobLifecycle\<close>, \<open>NetworkDefault\<close> live in other
  files of the package. Their fields are taken from the composite literals of
  parser.go, in the order written there. \<open>NetworkType(s)\<close>, \<open>JobLifecycle(s)\<close> and
  \<open>NetworkDefault(s)\<close> are Go conversions of a string to the named type: the
  constructor keeps the string unchanged.
\<close>

datatype NetworkType = NetworkType string
datatype JobLifecycle = JobLifecycle string
datatype NetworkDefault = NetworkDefault string

record WatchTime =
  Start :: int
  End :: int

record Update =
  UpdateWatchTime :: WatchTime

record Network =
  Name :: string
  Type :: NetworkType
  IP :: string
  Netmask :: string
  Gateway :: string
  DNS :: "string slice"
  CloudProperties :: Map

record ResourcePool =
  Name :: string
  Network :: string
  CloudProperties :: Map
  Env :: Map

record DiskPool =
  Name :: string
  DiskSize :: int
  CloudProperties :: Map

record ReleaseJobRef =
  Name :: string
  Release :: string

record JobNetwork =
  Name :: string
  StaticIPs :: "string slice"
  Default :: "NetworkDefault slice"

record Job =
  Name :: string
  Instances :: int
  Lifecycle :: JobLifecycle
  PersistentDisk :: int
  PersistentDiskPool :: string
  Templates :: "ReleaseJobRef slice"
  Networks :: "JobNetwork slice"
  Properties :: Map

record Manifest =
  Name :: string
  Update :: Update
  Networks :: "Network slice"
  ResourcePools :: "ResourcePool slice"
  DiskPools :: "DiskPool slice"
  Jobs :: "Job slice"
  Properties :: Map

text \<open>Go zero values: what \<open>make\<close> fills a fresh slice with, and \<open>Manifest{}\<close>.\<close>

definition WatchTime_zero :: WatchTime where
  "WatchTime_zero = \<lparr>WatchTime.Start = 0, End = 0\<rparr>"

definition Network_zero :: Network where
  "Network_zero =
     \<lparr>Network.Name = [], Type = NetworkType [], IP = [], Netmask = [], Gateway = [],
      DNS = None, CloudProperties = None\<rparr>"

definition ResourcePool_zero :: ResourcePool where
  "ResourcePool_zero =
     \<lparr>ResourcePool.Name = [], Network = [], CloudProperties = None, Env = None\<rparr>"

definition DiskPool_zero :: DiskPool where
  "DiskPool_zero = \<lparr>DiskPool.Name = [], DiskSize = 0, CloudProperties = None\<rparr>"

definition Job_zero :: Job where
  "Job_zero =
     \<lparr>Job.Name = [], Instances = 0, Lifecycle = JobLifecycle [], PersistentDisk = 0,
      PersistentDiskPool = [], Templates = None, Networks = None, Properties = None\<rparr>"

definition Manifest_zero :: Manifest where
  "Manifest_zero =
     \<lparr>Manifest.Name = [], Update = \<lparr>Update.UpdateWatchTime = WatchTime_zero\<rparr>,
      Networks = None, ResourcePools = None, DiskPools = None, Jobs = None,
      Properties = None\<rparr>"

subsection \<open>Errors\<close>

text \<open>
  \<open>bosherr.WrapError(err, msg)\<close> and \<open>bosherr.WrapErrorf(err, fmt, args...)\<close> keep the
  cause and add a message. The message of \<open>WrapErrorf\<close> is kept as its format string
  and the values passed for \<open>%s\<close> and \<open>%#v\<close>, not rendered.
\<close>

datatype fmt_arg =
    ArgString string
  | ArgInt int
  | ArgProperties raw_map
  | ArgNetworks "network slice"
  | ArgResourcePools "resourcePool slice"
  | ArgDiskPools "diskPool slice"
  | ArgJobs "job slice"

datatype error =
    Errorf string "fmt_arg list"
  | WrapError error string
  | WrapErrorf error string "fmt_arg list"

text \<open>The collaborators of the parser, passed to it as functions.\<close>

type_synonym BuildMap_fn = "raw_map \<Rightarrow> Map \<times> error option"
type_synonym NewWatchTime_fn = "string \<Rightarrow> WatchTime \<times> error option"
type_synonym ReadFile_fn = "string \<Rightarrow> string \<times> error option"
type_synonym Unmarshal_fn = "string \<Rightarrow> manifest \<Rightarrow> manifest \<times> error option"

subsection \<open>The property tree builder\<close>

text \<open>
  Modelled from the spec: the name of a dynamic value's runtime type, which the
  errors of the builder cite (section 4.3: an unsupported key or value is reported
  "naming the type"). The package \<open>common/property\<close> is not among the sources.
\<close>

fun typeName :: "dyn \<Rightarrow> string" where
  "typeName DNull = ''<nil>''"
| "typeName (DBool b) = ''bool''"
| "typeName (DInt n) = ''int''"
| "typeName (DFloat w) = ''float64''"
| "typeName (DString s) = ''string''"
| "typeName (DSeq xs) = ''[]interface {}''"
| "typeName (DMap es) = ''map[interface {}]interface {}''"
| "typeName (DOther t) = t"

text \<open>
  Modelled from the spec: \<open>biproperty.Build\<close> of package \<open>common/property\<close>, which is
  not among the sources (section 4.3). A mapping needs string keys: an entry whose
  key is not a string fails naming the key's runtime type, and two entries with the
  same key fail as a collision; the entries keep their order. A sequence is built
  element by element. A scalar is copied. Any other value fails naming its type.
\<close>

fun Build :: "dyn \<Rightarrow> error + Property"
  and BuildSeq :: "dyn list \<Rightarrow> error + Property list"
  and BuildEntries :: "(string \<times> Property) list \<Rightarrow> (dyn \<times> dyn) list \<Rightarrow> error + (string \<times> Property) list"
where
  "Build DNull = Inr PNull"
| "Build (DBool b) = Inr (PBool b)"
| "Build (DInt n) = Inr (PInt n)"
| "Build (DFloat w) = Inr (PFloat w)"
| "Build (DString s) = Inr (PString s)"
| "Build (DSeq xs) = (case BuildSeq xs of Inl e \<Rightarrow> Inl e | Inr ps \<Rightarrow> Inr (PList ps))"
| "Build (DMap es) = (case BuildEntries [] es of Inl e \<Rightarrow> Inl e | Inr ps \<Rightarrow> Inr (PMap ps))"
| "Build (DOther t) = Inl (Errorf ''unsupported value type %s'' [ArgString t])"
| "BuildSeq [] = Inr []"
| "BuildSeq (x # xs) =
     (case Build x of
        Inl e \<Rightarrow> Inl e
      | Inr p \<Rightarrow> (case BuildSeq xs of Inl e \<Rightarrow> Inl e | Inr ps \<Rightarrow> Inr (p # ps)))"
| "BuildEntries acc [] = Inr acc"
| "BuildEntries acc ((k, v) # es) =
     (case k of
        DString name \<Rightarrow>
          (case Build v of
             Inl e \<Rightarrow> Inl e
           | Inr p \<Rightarrow>
               if name \<in> set (map fst acc)
               then Inl (Errorf ''key collision %s'' [ArgString name])
               else BuildEntries (acc @ [(name, p)]) es)
      | _ \<Rightarrow> Inl (Errorf ''unsupported key type %s'' [ArgString (typeName k)]))"

text \<open>
  Modelled from the spec: \<open>biproperty.BuildMap\<close> of package \<open>common/property\<close>, which
  is not among the sources (section 4.3). A nil map at the top level gives an empty
  mapping and no error; any other map is built as a mapping. The spec does not say
  what is returned beside an error: the model returns the nil map.
\<close>

definition BuildMap :: BuildMap_fn where
  "BuildMap rawProperties =
     (case rawProperties of
        None \<Rightarrow> (Some [], None)
      | Some es \<Rightarrow>
          (case BuildEntries [] es of
             Inl e \<Rightarrow> (None, Some e)
           | Inr ps \<Rightarrow> (Some ps, None)))"

subsection \<open>The watch time parser\<close>

text \<open>
  Modelled from the spec: reading a non-negative integer literal (section 4.4, "both
  bounds must parse as non-negative integers"): a non-empty string of decimal
  digits. \<open>splitOn\<close> cuts the expression at the delimiter.
\<close>

definition digitVal :: "char \<Rightarrow> nat option" where
  "digitVal c =
     map_of [(CHR ''0'', 0), (CHR ''1'', 1), (CHR ''2'', 2), (CHR ''3'', 3), (CHR ''4'', 4),
             (CHR ''5'', 5), (CHR ''6'', 6), (CHR ''7'', 7), (CHR ''8'', 8), (CHR ''9'', 9)] c"

fun parseDigits :: "nat \<Rightarrow> string \<Rightarrow> nat option" where
  "parseDigits acc [] = Some acc"
| "parseDigits acc (c # cs) =
     (case digitVal c of None \<Rightarrow> None | Some d \<Rightarrow> parseDigits (acc * 10 + d) cs)"

definition parseLiteral :: "string \<Rightarrow> nat option" where
  "parseLiteral s = (if s = [] then None else parseDigits 0 s)"

fun splitOn :: "char \<Rightarrow> string \<Rightarrow> string list" where
  "splitOn d [] = [[]]"
| "splitOn d (c # cs) =
     (if c = d then [] # splitOn d cs
      else (case splitOn d cs of [] \<Rightarrow> [[c]] | p # ps \<Rightarrow> (c # p) # ps))"

text \<open>
  Modelled from the spec: \<open>NewWatchTime\<close>, declared in another file of the package
  that is not among the sources (section 4.4). The expression is one integer
  literal, read as the end with start 0, or two integer literals separated by
  \<open>-\<close>. Malformed numeric text fails naming the offending substring; a start above
  the end fails naming both values. The spec does not say what is returned beside
  an error: the model returns the zero interval.
\<close>

definition malformedWatchTime :: "string \<Rightarrow> WatchTime \<times> error option" where
  "malformedWatchTime s = (WatchTime_zero, Some (Errorf ''malformed watch time %s'' [ArgString s]))"

definition NewWatchTime :: NewWatchTime_fn where
  "NewWatchTime expression =
     (case splitOn CHR ''-'' expression of
        [e] \<Rightarrow>
          (case parseLiteral e of
             None \<Rightarrow> malformedWatchTime e
           | Some b \<Rightarrow> (\<lparr>WatchTime.Start = 0, End = int b\<rparr>, None))
      | [s, e] \<Rightarrow>
          (case parseLiteral s of
             None \<Rightarrow> malformedWatchTime s
           | Some a \<Rightarrow>
               (case parseLiteral e of
                  None \<Rightarrow> malformedWatchTime e
                | Some b \<Rightarrow>
                    if a \<le> b then (\<lparr>WatchTime.Start = int a, End = int b\<rparr>, None)
                    else (WatchTime_zero,
                          Some (Errorf ''invalid interval %d-%d'' [ArgInt (int a), ArgInt (int b)]))))
      | _ \<Rightarrow> malformedWatchTime expression)"

subsection \<open>Section parsers (parser.go, lines 168-293)\<close>

text \<open>
  Each parser allocates the result with \<open>make\<close> (a slice of zero values of the
  input's length), then walks the input with its index \<open>i\<close>, writing entry \<open>i\<close> of
  the result. The walk is the \<open>_loop\<close> function: its arguments are the index, the
  entries still to visit and the result so far. \<open>biproperty.BuildMap\<close> is the
  argument \<open>buildMap\<close>; when it fails the parser returns at once, with the result
  as filled so far beside the wrapped error.
\<close>

fun parseNetworkManifests_loop ::
  "BuildMap_fn \<Rightarrow> nat \<Rightarrow> network list \<Rightarrow> Network list \<Rightarrow> Network list \<times> error option"
where
  "parseNetworkManifests_loop buildMap i [] networks = (networks, None)"
| "parseNetworkManifests_loop buildMap i (rawNetwork # rest) networks =
     (let network =
            \<lparr>Network.Name = network.Name rawNetwork,
             Type = NetworkType (network.Type rawNetwork),
             IP = network.IP rawNetwork,
             Netmask = network.Netmask rawNetwork,
             Gateway = network.Gateway rawNetwork,
             DNS = network.DNS rawNetwork,
             CloudProperties = None\<rparr>
      in case buildMap (network.CloudProperties rawNetwork) of
           (cloudProperties, Some err) \<Rightarrow>
             (networks,
              Some (WrapErrorf err ''Parsing network '%s' cloud_properties: %#v''
                      [ArgString (network.Name rawNetwork),
                       ArgProperties (network.CloudProperties rawNetwork)]))
         | (cloudProperties, None) \<Rightarrow>
             parseNetworkManifests_loop buildMap (Suc i) rest
               (networks[i := network\<lparr>Network.CloudProperties := cloudProperties\<rparr>]))"

definition parseNetworkManifests ::
  "BuildMap_fn \<Rightarrow> network slice \<Rightarrow> Network slice \<times> error option"
where
  "parseNetworkManifests buildMap rawNetworks =
     (let networks = replicate (slice_len rawNetworks) Network_zero
      in case parseNetworkManifests_loop buildMap 0 (slice_elems rawNetworks) networks of
           (networks, err) \<Rightarrow> (Some networks, err))"

fun parseResourcePoolManifests_loop ::
  "BuildMap_fn \<Rightarrow> nat \<Rightarrow> resourcePool list \<Rightarrow> ResourcePool list
     \<Rightarrow> ResourcePool list \<times> error option"
where
  "parseResourcePoolManifests_loop buildMap i [] resourcePools = (resourcePools, None)"
| "parseResourcePoolManifests_loop buildMap i (rawResourcePool # rest) resourcePools =
     (let resourcePool =
            \<lparr>ResourcePool.Name = resourcePool.Name rawResourcePool,
             Network = resourcePool.Network rawResourcePool,
             CloudProperties = None,
             Env = None\<rparr>
      in case buildMap (resourcePool.CloudProperties rawResourcePool) of
           (cloudProperties, Some err) \<Rightarrow>
             (resourcePools,
              Some (WrapErrorf err ''Parsing resource_pool '%s' cloud_properties: %#v''
                      [ArgString (resourcePool.Name rawResourcePool),
                       ArgProperties (resourcePool.CloudProperties rawResourcePool)]))
         | (cloudProperties, None) \<Rightarrow>
             (let resourcePool = resourcePool\<lparr>ResourcePool.CloudProperties := cloudProperties\<rparr>
              in case buildMap (resourcePool.Env rawResourcePool) of
                   (env, Some err) \<Rightarrow>
                     (resourcePools,
                      Some (WrapErrorf err ''Parsing resource_pool '%s' env: %#v''
                              [ArgString (resourcePool.Name rawResourcePool),
                               ArgProperties (resourcePool.Env rawResourcePool)]))
                 | (env, None) \<Rightarrow>
                     parseResourcePoolManifests_loop buildMap (Suc i) rest
                       (resourcePools[i := resourcePool\<lparr>ResourcePool.Env := env\<rparr>])))"

definition parseResourcePoolManifests ::
  "BuildMap_fn \<Rightarrow> resourcePool slice \<Rightarrow> ResourcePool slice \<times> error option"
where
  "parseResourcePoolManifests buildMap rawResourcePools =
     (let resourcePools = replicate (slice_len rawResourcePools) ResourcePool_zero
      in case parseResourcePoolManifests_loop buildMap 0 (slice_elems rawResourcePools)
                resourcePools of
           (resourcePools, err) \<Rightarrow> (Some resourcePools, err))"

fun parseDiskPoolManifests_loop ::
  "BuildMap_fn \<Rightarrow> nat \<Rightarrow> diskPool list \<Rightarrow> DiskPool list \<Rightarrow> DiskPool list \<times> error option"
where
  "parseDiskPoolManifests_loop buildMap i [] diskPools = (diskPools, None)"
| "parseDiskPoolManifests_loop buildMap i (rawDiskPool # rest) diskPools =
     (let diskPool =
            \<lparr>DiskPool.Name = diskPool.Name rawDiskPool,
             DiskSize = diskPool.DiskSize rawDiskPool,
             CloudProperties = None\<rparr>
      in case buildMap (diskPool.CloudProperties rawDiskPool) of
           (cloudProperties, Some err) \<Rightarrow>
             (diskPools,
              Some (WrapErrorf err ''Parsing disk_pool '%s' cloud_properties: %#v''
                      [ArgString (diskPool.Name rawDiskPool),
                       ArgProperties (diskPool.CloudProperties rawDiskPool)]))
         | (cloudProperties, None) \<Rightarrow>
             parseDiskPoolManifests_loop buildMap (Suc i) rest
               (diskPools[i := diskPool\<lparr>DiskPool.CloudProperties := cloudProperties\<rparr>]))"

definition parseDiskPoolManifests ::
  "BuildMap_fn \<Rightarrow> diskPool slice \<Rightarrow> DiskPool slice \<times> error option"
where
  "parseDiskPoolManifests buildMap rawDiskPools =
     (let diskPools = replicate (slice_len rawDiskPools) DiskPool_zero
      in case parseDiskPoolManifests_loop buildMap 0 (slice_elems rawDiskPools) diskPools of
           (diskPools, err) \<Rightarrow> (Some diskPools, err))"

text \<open>
  In the job parser the three inner loops (templates, networks, network defaults)
  cannot fail: each fills a fresh slice of the input's length entry by entry, which
  is \<open>map\<close>. Each runs only when its input is not \<open>nil\<close>; \<open>BuildMap\<close> is called only
  when the raw properties are not \<open>nil\<close>.
\<close>

fun parseJobManifests_loop ::
  "BuildMap_fn \<Rightarrow> nat \<Rightarrow> job list \<Rightarrow> Job list \<Rightarrow> Job list \<times> error option"
where
  "parseJobManifests_loop buildMap i [] jobs = (jobs, None)"
| "parseJobManifests_loop buildMap i (rawJob # rest) jobs =
     (let job =
            \<lparr>Job.Name = job.Name rawJob,
             Instances = job.Instances rawJob,
             Lifecycle = JobLifecycle (job.Lifecycle rawJob),
             PersistentDisk = job.PersistentDisk rawJob,
             PersistentDiskPool = job.PersistentDiskPool rawJob,
             Templates = None,
             Networks = None,
             Properties = None\<rparr>;
          job =
            (case job.Templates rawJob of
               None \<Rightarrow> job
             | Some rawTemplates \<Rightarrow>
                 (let releaseJobRefs =
                        map (\<lambda>rawJobRef.
                               \<lparr>ReleaseJobRef.Name = releaseJobRef.Name rawJobRef,
                                Release = releaseJobRef.Release rawJobRef\<rparr>)
                            rawTemplates
                  in job\<lparr>Job.Templates := Some releaseJobRefs\<rparr>));
          job =
            (case job.Networks rawJob of
               None \<Rightarrow> job
             | Some rawNetworks \<Rightarrow>
                 (let jobNetworks =
                        map (\<lambda>rawJobNetwork.
                               (let jobNetwork =
                                      \<lparr>JobNetwork.Name = jobNetwork.Name rawJobNetwork,
                                       StaticIPs = jobNetwork.StaticIPs rawJobNetwork,
                                       Default = None\<rparr>
                                in case jobNetwork.Default rawJobNetwork of
                                     None \<Rightarrow> jobNetwork
                                   | Some rawDefaults \<Rightarrow>
                                       jobNetwork\<lparr>JobNetwork.Default :=
                                                    Some (map NetworkDefault rawDefaults)\<rparr>))
                            rawNetworks
                  in job\<lparr>Job.Networks := Some jobNetworks\<rparr>))
      in case job.Properties rawJob of
           None \<Rightarrow> parseJobManifests_loop buildMap (Suc i) rest (jobs[i := job])
         | Some rawProperties \<Rightarrow>
             (case buildMap (job.Properties rawJob) of
                (properties, Some err) \<Rightarrow>
                  (jobs,
                   Some (WrapErrorf err ''Parsing job '%s' properties: %#v''
                           [ArgString (job.Name rawJob), ArgProperties (job.Properties rawJob)]))
              | (properties, None) \<Rightarrow>
                  parseJobManifests_loop buildMap (Suc i) rest
                    (jobs[i := job\<lparr>Job.Properties := properties\<rparr>])))"

definition parseJobManifests :: "BuildMap_fn \<Rightarrow> job slice \<Rightarrow> Job slice \<times> error option" where
  "parseJobManifests buildMap rawJobs =
     (let jobs = replicate (slice_len rawJobs) Job_zero
      in case parseJobManifests_loop buildMap 0 (slice_elems rawJobs) jobs of
           (jobs, err) \<Rightarrow> (Some jobs, err))"

subsection \<open>The orchestrator (parser.go, lines 82-166)\<close>

definition boshDeploymentDefaults :: Manifest where
  "boshDeploymentDefaults =
     Manifest_zero
       \<lparr>Manifest.Update :=
          \<lparr>Update.UpdateWatchTime = \<lparr>WatchTime.Start = 0, End = 300000\<rparr>\<rparr>\<rparr>"

definition parseDeploymentManifest ::
  "BuildMap_fn \<Rightarrow> NewWatchTime_fn \<Rightarrow> manifest \<Rightarrow> Manifest \<times> error option"
where
  "parseDeploymentManifest buildMap newWatchTime depManifest =
     (let deployment = boshDeploymentDefaults;
          deployment = deployment\<lparr>Manifest.Name := manifest.Name depManifest\<rparr>
      in case parseNetworkManifests buildMap (manifest.Networks depManifest) of
        (networks, Some err) \<Rightarrow>
          (Manifest_zero,
           Some (WrapErrorf err ''Parsing networks: %#v''
                   [ArgNetworks (manifest.Networks depManifest)]))
      | (networks, None) \<Rightarrow>
     (let deployment = deployment\<lparr>Manifest.Networks := networks\<rparr>
      in case parseResourcePoolManifests buildMap (manifest.ResourcePools depManifest) of
        (resourcePools, Some err) \<Rightarrow>
          (Manifest_zero,
           Some (WrapErrorf err ''Parsing resource_pools: %#v''
                   [ArgResourcePools (manifest.ResourcePools depManifest)]))
      | (resourcePools, None) \<Rightarrow>
     (let deployment = deployment\<lparr>Manifest.ResourcePools := resourcePools\<rparr>
      in case parseDiskPoolManifests buildMap (manifest.DiskPools depManifest) of
        (diskPools, Some err) \<Rightarrow>
          (Manifest_zero,
           Some (WrapErrorf err ''Parsing disk_pools: %#v''
                   [ArgDiskPools (manifest.DiskPools depManifest)]))
      | (diskPools, None) \<Rightarrow>
     (let deployment = deployment\<lparr>Manifest.DiskPools := diskPools\<rparr>
      in case parseJobManifests buildMap (manifest.Jobs depManifest) of
        (jobs, Some err) \<Rightarrow>
          (Manifest_zero,
           Some (WrapErrorf err ''Parsing jobs: %#v'' [ArgJobs (manifest.Jobs depManifest)]))
      | (jobs, None) \<Rightarrow>
     (let deployment = deployment\<lparr>Manifest.Jobs := jobs\<rparr>
      in case buildMap (manifest.Properties depManifest) of
        (properties, Some err) \<Rightarrow>
          (Manifest_zero,
           Some (WrapErrorf err ''Parsing global manifest properties: %#v''
                   [ArgProperties (manifest.Properties depManifest)]))
      | (properties, None) \<Rightarrow>
     (let deployment = deployment\<lparr>Manifest.Properties := properties\<rparr>
      in case UpdateSpec.UpdateWatchTime (manifest.Update depManifest) of
        None \<Rightarrow> (deployment, None)
      | Some expression \<Rightarrow>
          (case newWatchTime expression of
             (updateWatchTime, Some err) \<Rightarrow>
               (Manifest_zero, Some (WrapError err ''Parsing update watch time''))
           | (updateWatchTime, None) \<Rightarrow>
               (deployment\<lparr>Manifest.Update := \<lparr>Update.UpdateWatchTime = updateWatchTime\<rparr>\<rparr>,
                None))))))))"

text \<open>
  \<open>Parse\<close> reads the file through the file system of the parser and decodes it with
  the YAML decoder; both are libraries outside the repository and are passed in.
  The decoder fills \<open>comboManifest\<close>, which starts as the zero value. The debug log
  line has no effect on the result.
\<close>

definition Parse ::
  "ReadFile_fn \<Rightarrow> Unmarshal_fn \<Rightarrow> BuildMap_fn \<Rightarrow> NewWatchTime_fn \<Rightarrow> string
     \<Rightarrow> Manifest \<times> error option"
where
  "Parse readFile unmarshal buildMap newWatchTime path =
     (case readFile path of
        (contents, Some err) \<Rightarrow>
          (Manifest_zero, Some (WrapErrorf err ''Reading file %s'' [ArgString path]))
      | (contents, None) \<Rightarrow>
          (case unmarshal contents manifest_zero of
             (comboManifest, Some err) \<Rightarrow>
               (Manifest_zero, Some (WrapError err ''Unmarshalling BOSH deployment manifest''))
           | (comboManifest, None) \<Rightarrow>
               (case parseDeploymentManifest buildMap newWatchTime comboManifest of
                  (deploymentManifest, Some err) \<Rightarrow>
                    (Manifest_zero,
                     Some (WrapError err ''Unmarshalling BOSH deployment manifest''))
                | (deploymentManifest, None) \<Rightarrow> (deploymentManifest, None))))"

subsection \<open>One pass of each loop body\<close>

text \<open>
  What one pass of a section parser's loop body does with its entry, apart from the
  index: \<open>Inl\<close> the error it returns with, \<open>Inr\<close> the value it stores at the entry's
  index. \<open>fillFrom\<close> is the walk all four parsers share, \<open>fillSlice\<close> the walk
  started on a fresh slice, and \<open>firstError\<close> the error of the first entry, in order,
  whose pass fails.
\<close>

definition networkEntry :: "BuildMap_fn \<Rightarrow> network \<Rightarrow> error + Network" where
  "networkEntry buildMap rawNetwork =
     (case buildMap (network.CloudProperties rawNetwork) of
        (cloudProperties, Some err) \<Rightarrow>
          Inl (WrapErrorf err ''Parsing network '%s' cloud_properties: %#v''
                 [ArgString (network.Name rawNetwork),
                  ArgProperties (network.CloudProperties rawNetwork)])
      | (cloudProperties, None) \<Rightarrow>
          Inr \<lparr>Network.Name = network.Name rawNetwork,
               Type = NetworkType (network.Type rawNetwork),
               IP = network.IP rawNetwork,
               Netmask = network.Netmask rawNetwork,
               Gateway = network.Gateway rawNetwork,
               DNS = network.DNS rawNetwork,
               CloudProperties = cloudProperties\<rparr>)"

definition resourcePoolEntry :: "BuildMap_fn \<Rightarrow> resourcePool \<Rightarrow> error + ResourcePool" where
  "resourcePoolEntry buildMap rawResourcePool =
     (case buildMap (resourcePool.CloudProperties rawResourcePool) of
        (cloudProperties, Some err) \<Rightarrow>
          Inl (WrapErrorf err ''Parsing resource_pool '%s' cloud_properties: %#v''
                 [ArgString (resourcePool.Name rawResourcePool),
                  ArgProperties (resourcePool.CloudProperties rawResourcePool)])
      | (cloudProperties, None) \<Rightarrow>
          (case buildMap (resourcePool.Env rawResourcePool) of
             (env, Some err) \<Rightarrow>
               Inl (WrapErrorf err ''Parsing resource_pool '%s' env: %#v''
                      [ArgString (resourcePool.Name rawResourcePool),
                       ArgProperties (resourcePool.Env rawResourcePool)])
           | (env, None) \<Rightarrow>
               Inr \<lparr>ResourcePool.Name = resourcePool.Name rawResourcePool,
                    Network = resourcePool.Network rawResourcePool,
                    CloudProperties = cloudProperties,
                    Env = env\<rparr>))"

definition diskPoolEntry :: "BuildMap_fn \<Rightarrow> diskPool \<Rightarrow> error + DiskPool" where
  "diskPoolEntry buildMap rawDiskPool =
     (case buildMap (diskPool.CloudProperties rawDiskPool) of
        (cloudProperties, Some err) \<Rightarrow>
          Inl (WrapErrorf err ''Parsing disk_pool '%s' cloud_properties: %#v''
                 [ArgString (diskPool.Name rawDiskPool),
                  ArgProperties (diskPool.CloudProperties rawDiskPool)])
      | (cloudProperties, None) \<Rightarrow>
          Inr \<lparr>DiskPool.Name = diskPool.Name rawDiskPool,
               DiskSize = diskPool.DiskSize rawDiskPool,
               CloudProperties = cloudProperties\<rparr>)"

definition releaseJobRefEntry :: "releaseJobRef \<Rightarrow> ReleaseJobRef" where
  "releaseJobRefEntry rawJobRef =
     \<lparr>ReleaseJobRef.Name = releaseJobRef.Name rawJobRef,
      Release = releaseJobRef.Release rawJobRef\<rparr>"

definition jobNetworkEntry :: "jobNetwork \<Rightarrow> JobNetwork" where
  "jobNetworkEntry rawJobNetwork =
     \<lparr>JobNetwork.Name = jobNetwork.Name rawJobNetwork,
      StaticIPs = jobNetwork.StaticIPs rawJobNetwork,
      Default = map_option (map NetworkDefault) (jobNetwork.Default rawJobNetwork)\<rparr>"

definition jobEntry :: "BuildMap_fn \<Rightarrow> job \<Rightarrow> error + Job" where
  "jobEntry buildMap rawJob =
     (let job =
            \<lparr>Job.Name = job.Name rawJob,
             Instances = job.Instances rawJob,
             Lifecycle = JobLifecycle (job.Lifecycle rawJob),
             PersistentDisk = job.PersistentDisk rawJob,
             PersistentDiskPool = job.PersistentDiskPool rawJob,
             Templates = map_option (map releaseJobRefEntry) (job.Templates rawJob),
             Networks = map_option (map jobNetworkEntry) (job.Networks rawJob),
             Properties = None\<rparr>
      in case job.Properties rawJob of
           None \<Rightarrow> Inr job
         | Some rawProperties \<Rightarrow>
             (case buildMap (Some rawProperties) of
                (properties, Some err) \<Rightarrow>
                  Inl (WrapErrorf err ''Parsing job '%s' properties: %#v''
                         [ArgString (job.Name rawJob), ArgProperties (Some rawProperties)])
              | (properties, None) \<Rightarrow> Inr (job\<lparr>Job.Properties := properties\<rparr>)))"

fun fillFrom ::
  "('a \<Rightarrow> error + 'b) \<Rightarrow> nat \<Rightarrow> 'a list \<Rightarrow> 'b list \<Rightarrow> 'b list \<times> error option"
where
  "fillFrom f i [] out = (out, None)"
| "fillFrom f i (x # xs) out =
     (case f x of
        Inl err \<Rightarrow> (out, Some err)
      | Inr y \<Rightarrow> fillFrom f (Suc i) xs (out[i := y]))"

fun firstError :: "('a \<Rightarrow> error + 'b) \<Rightarrow> 'a list \<Rightarrow> error option" where
  "firstError f [] = None"
| "firstError f (x # xs) = (case f x of Inl err \<Rightarrow> Some err | Inr y \<Rightarrow> firstError f xs)"

definition fillSlice ::
  "('a \<Rightarrow> error + 'b) \<Rightarrow> 'b \<Rightarrow> 'a slice \<Rightarrow> 'b slice \<times> error option"
where
  "fillSlice f zero raw =
     (case fillFrom f 0 (slice_elems raw) (replicate (slice_len raw) zero) of
        (out, err) \<Rightarrow> (Some out, err))"

subsection \<open>Example documents\<close>

text \<open>
  Decoded documents used to run the parser: a deployment with one network, one
  resource pool, one disk pool and two jobs, a property block with a boolean key,
  and stand-ins for the file system and the decoder that serve these documents.
\<close>

definition ex_properties :: raw_map where
  "ex_properties =
     Some [(DString ''timeout'', DInt 30),
           (DString ''nested'', DMap [(DString ''retries'', DInt 3)])]"

definition ex_badProperties :: raw_map where
  "ex_badProperties = Some [(DBool True, DInt 1)]"

definition ex_network :: network where
  "ex_network =
     \<lparr>network.Name = ''default'', Type = ''dynamic'', CloudProperties = None, IP = [],
      Netmask = [], Gateway = [], DNS = None\<rparr>"

definition ex_resourcePool :: resourcePool where
  "ex_resourcePool =
     \<lparr>resourcePool.Name = [], Network = [], CloudProperties = None, Env = Some []\<rparr>"

definition ex_diskPool :: diskPool where
  "ex_diskPool = \<lparr>diskPool.Name = ''disks'', DiskSize = - 5, CloudProperties = None\<rparr>"

definition ex_job :: job where
  "ex_job =
     \<lparr>job.Name = ''web'', Instances = 2, Lifecycle = [],
      Templates = Some [\<lparr>releaseJobRef.Name = ''app'', Release = ''rel1''\<rparr>],
      Networks = None, PersistentDisk = 0, PersistentDiskPool = [], Properties = None\<rparr>"

definition ex_errand :: job where
  "ex_errand =
     \<lparr>job.Name = ''smoke'', Instances = - 1, Lifecycle = ''errand'', Templates = None,
      Networks = Some [\<lparr>jobNetwork.Name = ''default'', Default = None, StaticIPs = None\<rparr>],
      PersistentDisk = 0, PersistentDiskPool = [], Properties = ex_properties\<rparr>"

definition ex_negativeJob :: job where
  "ex_negativeJob = ex_job\<lparr>job.Instances := - 1\<rparr>"

definition ex_manifest :: manifest where
  "ex_manifest =
     \<lparr>manifest.Name = ''dep'', Update = \<lparr>UpdateSpec.UpdateWatchTime = None\<rparr>,
      Networks = Some [ex_network], ResourcePools = Some [ex_resourcePool],
      DiskPools = Some [ex_diskPool], Jobs = Some [ex_job, ex_errand],
      Properties = ex_properties\<rparr>"

definition ex_manifest_noname :: manifest where
  "ex_manifest_noname = ex_manifest\<lparr>manifest.Name := []\<rparr>"

definition ex_manifest_badjob :: manifest where
  "ex_manifest_badjob =
     ex_manifest\<lparr>manifest.Jobs :=
                   Some [ex_job, ex_errand\<lparr>job.Properties := ex_badProperties\<rparr>]\<rparr>"

definition ex_readFile :: ReadFile_fn where
  "ex_readFile path =
     (if path = ''good.yml'' then (''good'', None)
      else if path = ''bad.yml'' then (''bad'', None)
      else if path = ''noname.yml'' then (''noname'', None)
      else ([], Some (Errorf ''open %s: no such file'' [ArgString path])))"

definition ex_unmarshal :: Unmarshal_fn where
  "ex_unmarshal contents comboManifest =
     (if contents = ''good'' then (ex_manifest, None)
      else if contents = ''bad'' then (ex_manifest_badjob, None)
      else if contents = ''noname'' then (ex_manifest_noname, None)
      else (comboManifest, Some (Errorf ''yaml: cannot decode'' [])))"

definition ex_manifest_pair :: manifest where
  "ex_manifest_pair =
     ex_manifest\<lparr>manifest.Update := \<lparr>UpdateSpec.UpdateWatchTime = Some ''1000-2000''\<rparr>\<rparr>"

definition ex_manifest_single :: manifest where
  "ex_manifest_single =
     ex_manifest\<lparr>manifest.Update := \<lparr>UpdateSpec.UpdateWatchTime = Some ''5000''\<rparr>\<rparr>"

subsection \<open>The stages of the orchestrator\<close>

text \<open>
  The error, if any, of each stage of \<open>parseDeploymentManifest\<close> run on its own, in
  the order the orchestrator runs them: networks, resource pools, disk pools, jobs,
  global properties, update watch time. \<open>cause\<close> is the error a wrapped error wraps.
\<close>

definition stageErrors :: "BuildMap_fn \<Rightarrow> NewWatchTime_fn \<Rightarrow> manifest \<Rightarrow> error option list" where
  "stageErrors buildMap newWatchTime depManifest =
     [snd (parseNetworkManifests buildMap (manifest.Networks depManifest)),
      snd (parseResourcePoolManifests buildMap (manifest.ResourcePools depManifest)),
      snd (parseDiskPoolManifests buildMap (manifest.DiskPools depManifest)),
      snd (parseJobManifests buildMap (manifest.Jobs depManifest)),
      snd (buildMap (manifest.Properties depManifest)),
      (case UpdateSpec.UpdateWatchTime (manifest.Update depManifest) of
         None \<Rightarrow> None
       | Some expression \<Rightarrow> snd (newWatchTime expression))]"

fun cause :: "error \<Rightarrow> error option" where
  "cause (Errorf fmt args) = None"
| "cause (WrapError err msg) = Some err"
| "cause (WrapErrorf err fmt args) = Some err"

definition ex_manifest_twobad :: manifest where
  "ex_manifest_twobad =
     ex_manifest_badjob
       \<lparr>manifest.Networks :=
          Some [ex_network, ex_network\<lparr>network.CloudProperties := ex_badProperties\<rparr>]\<rparr>"

definition ex_keyErr :: error where
  "ex_keyErr = Errorf ''unsupported key type %s'' [ArgString ''bool'']"

definition ex_jobErr :: error where
  "ex_jobErr =
     WrapErrorf ex_keyErr ''Parsing job '%s' properties: %#v''
       [ArgString ''smoke'', ArgProperties ex_badProperties]"

definition ex_networkErr :: error where
  "ex_networkErr =
     WrapErrorf ex_keyErr ''Parsing network '%s' cloud_properties: %#v''
       [ArgString ''default'', ArgProperties ex_badProperties]"

definition ex_manifest_badpool :: manifest where
  "ex_manifest_badpool =
     ex_manifest_badjob
       \<lparr>manifest.ResourcePools :=
          Some [ex_resourcePool\<lparr>resourcePool.Env := ex_badProperties\<rparr>]\<rparr>"

definition ex_manifest_baddisk :: manifest where
  "ex_manifest_baddisk =
     ex_manifest_badjob
       \<lparr>manifest.DiskPools :=
          Some [ex_diskPool\<lparr>diskPool.CloudProperties := ex_badProperties\<rparr>]\<rparr>"

definition ex_manifest_badprops :: manifest where
  "ex_manifest_badprops =
     ex_manifest\<lparr>manifest.Properties := ex_badProperties,
                  manifest.Update := \<lparr>UpdateSpec.UpdateWatchTime = Some ''50-20''\<rparr>\<rparr>"

definition ex_manifest_badwatch :: manifest where
  "ex_manifest_badwatch =
     ex_manifest\<lparr>manifest.Update := \<lparr>UpdateSpec.UpdateWatchTime = Some ''50-20''\<rparr>\<rparr>"

definition ex_poolErr :: error where
  "ex_poolErr =
     WrapErrorf ex_keyErr ''Parsing resource_pool '%s' env: %#v''
       [ArgString [], ArgProperties ex_badProperties]"

definition ex_diskErr :: error where
  "ex_diskErr =
     WrapErrorf ex_keyErr ''Parsing disk_pool '%s' cloud_properties: %#v''
       [ArgString ''disks'', ArgProperties ex_badProperties]"

definition ex_watchErr :: error where
  "ex_watchErr = Errorf ''invalid interval %d-%d'' [ArgInt 50, ArgInt 20]"

text \<open>A property tree builder that, unlike \<open>BuildMap\<close>, rejects a nil block.\<close>

definition ex_strictBuildMap :: BuildMap_fn where
  "ex_strictBuildMap rawProperties =
     (case rawProperties of
        None \<Rightarrow> (None, Some (Errorf ''nil properties'' []))
      | Some es \<Rightarrow> BuildMap (Some es))"

definition ex_resourcePools_bad :: "resourcePool slice" where
  "ex_resourcePools_bad =
     Some [ex_resourcePool, ex_resourcePool\<lparr>resourcePool.Env := ex_badProperties\<rparr>]"

definition ex_resourcePools_cloud :: "resourcePool slice" where
  "ex_resourcePools_cloud =
     Some [ex_resourcePool\<lparr>resourcePool.CloudProperties := ex_badProperties,
                           resourcePool.Env := ex_badProperties\<rparr>]"

definition ex_diskPools_bad :: "diskPool slice" where
  "ex_diskPools_bad =
     Some [ex_diskPool,
           ex_diskPool\<lparr>diskPool.CloudProperties := ex_badProperties\<rparr>,
           ex_diskPool\<lparr>diskPool.Name := ''later'',
                       diskPool.CloudProperties := ex_badProperties\<rparr>]"

definition ex_poolCloudErr :: error where
  "ex_poolCloudErr =
     WrapErrorf ex_keyErr ''Parsing resource_pool '%s' cloud_properties: %#v''
       [ArgString [], ArgProperties ex_badProperties]"

section \<open>Properties of the walk\<close>

lemma fillFrom_snd: "snd (fillFrom f i xs out) = firstError f xs"
  by (induction xs arbitrary: i out) (auto split: sum.splits)

lemma fillFrom_cong:
  "(\<forall>x\<in>set xs. f x = g x) \<Longrightarrow> fillFrom f i xs out = fillFrom g i xs out"
  by (induction xs arbitrary: i out) (auto split: sum.splits)

text \<open>
  A walk that ends without error leaves the entries below the start index alone and
  has stored, at each later index, the value made from the input entry of that index.
\<close>

lemma fillFrom_ok:
  "fillFrom f i xs out = (res, None) \<Longrightarrow> length out = i + length xs \<Longrightarrow>
     length res = length out \<and> take i res = take i out \<and>
     list_all2 (\<lambda>x y. f x = Inr y) xs (drop i res)"
proof (induction xs arbitrary: i out)
  case Nil
  then show ?case by simp
next
  case (Cons x xs)
  from Cons.prems(1) obtain y where fx: "f x = Inr y"
    and rest: "fillFrom f (Suc i) xs (out[i := y]) = (res, None)"
    by (auto split: sum.splits)
  from Cons.prems(2) have len: "length (out[i := y]) = Suc i + length xs" by simp
  from Cons.IH [OF rest len]
  have l: "length res = length out"
    and t: "take (Suc i) res = take (Suc i) (out[i := y])"
    and a: "list_all2 (\<lambda>x y. f x = Inr y) xs (drop (Suc i) res)"
    by simp_all
  from Cons.prems(2) l have i: "i < length res" "i < length out" by simp_all
  from t have "take i (take (Suc i) res) = take i (take (Suc i) (out[i := y]))" by simp
  then have t': "take i res = take i out" by (simp add: min_def)
  from t have "take (Suc i) res ! i = take (Suc i) (out[i := y]) ! i" by simp
  with i have n: "res ! i = y" by simp
  from i have "drop i res = res ! i # drop (Suc i) res" by (simp add: Cons_nth_drop_Suc)
  with n fx a have "list_all2 (\<lambda>x y. f x = Inr y) (x # xs) (drop i res)" by simp
  with l t' show ?case by simp
qed

lemma firstError_None_iff: "firstError f xs = None \<longleftrightarrow> (\<forall>x\<in>set xs. \<exists>y. f x = Inr y)"
  by (induction xs) (auto split: sum.splits)

lemma firstError_first:
  "i < length xs \<Longrightarrow> (\<forall>k<i. \<exists>y. f (xs ! k) = Inr y) \<Longrightarrow> f (xs ! i) = Inl e \<Longrightarrow>
     firstError f xs = Some e"
proof (induction xs arbitrary: i)
  case Nil
  then show ?case by simp
next
  case (Cons x xs)
  show ?case
  proof (cases i)
    case 0
    with Cons.prems show ?thesis by simp
  next
    case (Suc j)
    with Cons.prems(2) have "\<exists>y. f ((x # xs) ! 0) = Inr y" by blast
    then obtain y where y: "f x = Inr y" by auto
    from Suc Cons.prems have j: "j < length xs" and fj: "f (xs ! j) = Inl e" by simp_all
    from Suc Cons.prems(2) have "\<forall>k<j. \<exists>y. f (xs ! k) = Inr y" by auto
    with j have "firstError f xs = Some e" using fj by (rule Cons.IH)
    with y show ?thesis by simp
  qed
qed

lemma slice_len_elems: "slice_len s = length (slice_elems s)"
  by (simp add: slice_len_def slice_elems_def split: option.splits)

lemma fillSlice_snd: "snd (fillSlice f z raw) = firstError f (slice_elems raw)"
proof -
  obtain r e where re: "fillFrom f 0 (slice_elems raw) (replicate (slice_len raw) z) = (r, e)"
    by (cases "fillFrom f 0 (slice_elems raw) (replicate (slice_len raw) z)")
  then have "firstError f (slice_elems raw) = e"
    using fillFrom_snd [of f 0 "slice_elems raw" "replicate (slice_len raw) z"] by simp
  with re show ?thesis by (simp add: fillSlice_def)
qed

lemma fillSlice_ok:
  assumes "fillSlice f z raw = (out, None)"
  shows "\<exists>ys. out = Some ys \<and> list_all2 (\<lambda>x y. f x = Inr y) (slice_elems raw) ys"
proof -
  from assms obtain r
    where re: "fillFrom f 0 (slice_elems raw) (replicate (slice_len raw) z) = (r, None)"
      and o: "out = Some r"
    by (auto simp: fillSlice_def split: prod.splits)
  from fillFrom_ok [OF re] have "list_all2 (\<lambda>x y. f x = Inr y) (slice_elems raw) r"
    by (simp add: slice_len_elems)
  with o show ?thesis by simp
qed

lemma fillSlice_cong:
  "(\<forall>x\<in>set (slice_elems raw). f x = g x) \<Longrightarrow> fillSlice f z raw = fillSlice g z raw"
  by (simp add: fillSlice_def fillFrom_cong [of "slice_elems raw" f g])

section \<open>Each section parser is the walk with its loop body\<close>

lemma parseNetworkManifests_loop_fill:
  "parseNetworkManifests_loop bm i xs out = fillFrom (networkEntry bm) i xs out"
  by (induction xs arbitrary: i out)
     (auto simp: networkEntry_def Let_def split: prod.splits option.splits)

lemma parseResourcePoolManifests_loop_fill:
  "parseResourcePoolManifests_loop bm i xs out = fillFrom (resourcePoolEntry bm) i xs out"
  by (induction xs arbitrary: i out)
     (auto simp: resourcePoolEntry_def Let_def split: prod.splits option.splits)

lemma parseDiskPoolManifests_loop_fill:
  "parseDiskPoolManifests_loop bm i xs out = fillFrom (diskPoolEntry bm) i xs out"
  by (induction xs arbitrary: i out)
     (auto simp: diskPoolEntry_def Let_def split: prod.splits option.splits)

lemma releaseJobRefEntry_fun:
  "(\<lambda>rawJobRef. \<lparr>ReleaseJobRef.Name = releaseJobRef.Name rawJobRef,
                    Release = releaseJobRef.Release rawJobRef\<rparr>) = releaseJobRefEntry"
  by (rule ext) (simp add: releaseJobRefEntry_def)

lemma jobNetworkEntry_fun:
  "(\<lambda>rawJobNetwork.
      case jobNetwork.Default rawJobNetwork of
        None \<Rightarrow> \<lparr>JobNetwork.Name = jobNetwork.Name rawJobNetwork,
                 StaticIPs = jobNetwork.StaticIPs rawJobNetwork, Default = None\<rparr>
      | Some rawDefaults \<Rightarrow>
          \<lparr>JobNetwork.Name = jobNetwork.Name rawJobNetwork,
           StaticIPs = jobNetwork.StaticIPs rawJobNetwork, Default = None\<rparr>
          \<lparr>JobNetwork.Default := Some (map NetworkDefault rawDefaults)\<rparr>) = jobNetworkEntry"
  by (rule ext) (simp add: jobNetworkEntry_def split: option.splits)

lemma parseJobManifests_loop_fill:
  "parseJobManifests_loop bm i xs out = fillFrom (jobEntry bm) i xs out"
  by (induction xs arbitrary: i out)
     (auto simp: jobEntry_def releaseJobRefEntry_fun jobNetworkEntry_fun Let_def
           split: prod.splits option.splits)

lemma parseNetworkManifests_fill:
  "parseNetworkManifests bm raw = fillSlice (networkEntry bm) Network_zero raw"
  by (simp add: parseNetworkManifests_def fillSlice_def parseNetworkManifests_loop_fill)

lemma parseResourcePoolManifests_fill:
  "parseResourcePoolManifests bm raw = fillSlice (resourcePoolEntry bm) ResourcePool_zero raw"
  by (simp add: parseResourcePoolManifests_def fillSlice_def
      parseResourcePoolManifests_loop_fill)

lemma parseDiskPoolManifests_fill:
  "parseDiskPoolManifests bm raw = fillSlice (diskPoolEntry bm) DiskPool_zero raw"
  by (simp add: parseDiskPoolManifests_def fillSlice_def parseDiskPoolManifests_loop_fill)

lemma parseJobManifests_fill:
  "parseJobManifests bm raw = fillSlice (jobEntry bm) Job_zero raw"
  by (simp add: parseJobManifests_def fillSlice_def parseJobManifests_loop_fill)

section \<open>The orchestrator, by outcome\<close>

lemma parseDeploymentManifest_ok:
  assumes "parseDeploymentManifest bm nwt m = (d, None)"
  shows "\<exists>ns rs ds js ps.
           parseNetworkManifests bm (manifest.Networks m) = (ns, None) \<and>
           parseResourcePoolManifests bm (manifest.ResourcePools m) = (rs, None) \<and>
           parseDiskPoolManifests bm (manifest.DiskPools m) = (ds, None) \<and>
           parseJobManifests bm (manifest.Jobs m) = (js, None) \<and>
           bm (manifest.Properties m) = (ps, None) \<and>
           (\<forall>x. UpdateSpec.UpdateWatchTime (manifest.Update m) = Some x \<longrightarrow> snd (nwt x) = None) \<and>
           d = \<lparr>Manifest.Name = manifest.Name m,
                Update = (case UpdateSpec.UpdateWatchTime (manifest.Update m) of
                            None \<Rightarrow> Manifest.Update boshDeploymentDefaults
                          | Some x \<Rightarrow> \<lparr>Update.UpdateWatchTime = fst (nwt x)\<rparr>),
                Networks = ns, ResourcePools = rs, DiskPools = ds, Jobs = js,
                Properties = ps\<rparr>"
  using assms
  by (auto simp: parseDeploymentManifest_def Let_def boshDeploymentDefaults_def Manifest_zero_def
           split: prod.splits option.splits)

lemma parseDeploymentManifest_zero:
  "parseDeploymentManifest bm nwt m = (d, Some e) \<Longrightarrow> d = Manifest_zero"
  by (auto simp: parseDeploymentManifest_def Let_def split: prod.splits option.splits)

lemma Parse_zero:
  "Parse rf um bm nwt path = (d, Some e) \<Longrightarrow> d = Manifest_zero"
  by (auto simp: Parse_def split: prod.splits option.splits)

lemma Parse_decoded:
  "rf path = (c, None) \<Longrightarrow> um c manifest_zero = (m, None) \<Longrightarrow>
   Parse rf um bm nwt path =
     (case parseDeploymentManifest bm nwt m of
        (d, Some err) \<Rightarrow> (Manifest_zero, Some (WrapError err ''Unmarshalling BOSH deployment manifest''))
      | (d, None) \<Rightarrow> (d, None))"
  by (simp add: Parse_def)

lemma Parse_ok:
  "rf path = (c, None) \<Longrightarrow> um c manifest_zero = (m, None) \<Longrightarrow>
   Parse rf um bm nwt path = (d, None) \<Longrightarrow> parseDeploymentManifest bm nwt m = (d, None)"
  by (auto simp: Parse_decoded split: prod.splits option.splits)

lemma boshDeploymentDefaults_Update:
  "Manifest.Update boshDeploymentDefaults =
     \<lparr>Update.UpdateWatchTime = \<lparr>WatchTime.Start = 0, End = 300000\<rparr>\<rparr>"
  by (simp add: boshDeploymentDefaults_def)

lemma parseDeploymentManifest_no_watch:
  "UpdateSpec.UpdateWatchTime (manifest.Update m) = None \<Longrightarrow>
   parseDeploymentManifest bm nwt m = parseDeploymentManifest bm nwt' m"
  by (simp add: parseDeploymentManifest_def Let_def split: prod.splits option.splits)

lemma fillSlice_nth:
  assumes "fillSlice f z raw = (res, None)"
  shows "\<exists>out. res = Some out \<and> length out = slice_len raw \<and>
           (\<forall>i<length out. f (slice_elems raw ! i) = Inr (out ! i))"
proof -
  from fillSlice_ok [OF assms] obtain ys where "res = Some ys"
    and "list_all2 (\<lambda>x y. f x = Inr y) (slice_elems raw) ys"
    by blast
  then show ?thesis
    by (auto simp: list_all2_conv_all_nth slice_len_elems)
qed

lemma networkEntry_Inr:
  "networkEntry bm r = Inr n \<Longrightarrow>
     snd (bm (network.CloudProperties r)) = None \<and>
     n = \<lparr>Network.Name = network.Name r, Type = NetworkType (network.Type r),
          IP = network.IP r, Netmask = network.Netmask r, Gateway = network.Gateway r,
          DNS = network.DNS r, CloudProperties = fst (bm (network.CloudProperties r))\<rparr>"
  by (auto simp: networkEntry_def split: prod.splits option.splits)

lemma resourcePoolEntry_Inr:
  "resourcePoolEntry bm r = Inr p \<Longrightarrow>
     snd (bm (resourcePool.CloudProperties r)) = None \<and> snd (bm (resourcePool.Env r)) = None \<and>
     p = \<lparr>ResourcePool.Name = resourcePool.Name r, Network = resourcePool.Network r,
          CloudProperties = fst (bm (resourcePool.CloudProperties r)),
          Env = fst (bm (resourcePool.Env r))\<rparr>"
  by (auto simp: resourcePoolEntry_def split: prod.splits option.splits)

lemma diskPoolEntry_Inr:
  "diskPoolEntry bm r = Inr p \<Longrightarrow>
     snd (bm (diskPool.CloudProperties r)) = None \<and>
     p = \<lparr>DiskPool.Name = diskPool.Name r, DiskSize = diskPool.DiskSize r,
          CloudProperties = fst (bm (diskPool.CloudProperties r))\<rparr>"
  by (auto simp: diskPoolEntry_def split: prod.splits option.splits)

lemma jobEntry_Inr:
  "jobEntry bm r = Inr j \<Longrightarrow>
     j = \<lparr>Job.Name = job.Name r, Instances = job.Instances r,
          Lifecycle = JobLifecycle (job.Lifecycle r),
          PersistentDisk = job.PersistentDisk r,
          PersistentDiskPool = job.PersistentDiskPool r,
          Templates = map_option (map releaseJobRefEntry) (job.Templates r),
          Networks = map_option (map jobNetworkEntry) (job.Networks r),
          Properties = (case job.Properties r of
                          None \<Rightarrow> None
                        | Some ps \<Rightarrow> fst (bm (Some ps)))\<rparr>"
  by (auto simp: jobEntry_def Let_def split: prod.splits option.splits)

lemma parseJobManifests_nth:
  "parseJobManifests bm raw = (jobs, None) \<Longrightarrow>
     \<exists>out. jobs = Some out \<and> length out = slice_len raw \<and>
       (\<forall>i<length out. jobEntry bm (slice_elems raw ! i) = Inr (out ! i))"
  by (simp add: parseJobManifests_fill fillSlice_nth)

lemma NewWatchTime_pair:
  "NewWatchTime ''1000-2000'' = (\<lparr>WatchTime.Start = 1000, End = 2000\<rparr>, None)"
  by code_simp

lemma NewWatchTime_single:
  "NewWatchTime ''5000'' = (\<lparr>WatchTime.Start = 0, End = 5000\<rparr>, None)"
  by code_simp

lemma parseDeploymentManifest_watch:
  "UpdateSpec.UpdateWatchTime (manifest.Update m) = Some x \<Longrightarrow>
   parseDeploymentManifest bm nwt m = (d, None) \<Longrightarrow>
   snd (nwt x) = None \<and> Manifest.Update d = \<lparr>Update.UpdateWatchTime = fst (nwt x)\<rparr>"
  using parseDeploymentManifest_ok [of bm nwt m d] by auto

lemma parseNetworkManifests_nth:
  "parseNetworkManifests bm raw = (networks, None) \<Longrightarrow>
     \<exists>out. networks = Some out \<and> length out = slice_len raw \<and>
       (\<forall>i<length out. networkEntry bm (slice_elems raw ! i) = Inr (out ! i))"
  by (simp add: parseNetworkManifests_fill fillSlice_nth)

lemma parseResourcePoolManifests_nth:
  "parseResourcePoolManifests bm raw = (pools, None) \<Longrightarrow>
     \<exists>out. pools = Some out \<and> length out = slice_len raw \<and>
       (\<forall>i<length out. resourcePoolEntry bm (slice_elems raw ! i) = Inr (out ! i))"
  by (simp add: parseResourcePoolManifests_fill fillSlice_nth)

lemma parseDiskPoolManifests_nth:
  "parseDiskPoolManifests bm raw = (pools, None) \<Longrightarrow>
     \<exists>out. pools = Some out \<and> length out = slice_len raw \<and>
       (\<forall>i<length out. diskPoolEntry bm (slice_elems raw ! i) = Inr (out ! i))"
  by (simp add: parseDiskPoolManifests_fill fillSlice_nth)

lemma networkEntry_Name: "networkEntry bm r = Inr n \<Longrightarrow> Network.Name n = network.Name r"
  by (drule networkEntry_Inr) simp

lemma resourcePoolEntry_Name:
  "resourcePoolEntry bm r = Inr p \<Longrightarrow> ResourcePool.Name p = resourcePool.Name r"
  by (drule resourcePoolEntry_Inr) simp

lemma diskPoolEntry_Name: "diskPoolEntry bm r = Inr p \<Longrightarrow> DiskPool.Name p = diskPool.Name r"
  by (drule diskPoolEntry_Inr) simp

lemma jobEntry_Name: "jobEntry bm r = Inr j \<Longrightarrow> Job.Name j = job.Name r"
  by (drule jobEntry_Inr) simp

lemma parseDeploymentManifest_snd:
  "snd (parseDeploymentManifest bm nwt m) =
     (case snd (parseNetworkManifests bm (manifest.Networks m)) of
        Some e \<Rightarrow> Some (WrapErrorf e ''Parsing networks: %#v'' [ArgNetworks (manifest.Networks m)])
      | None \<Rightarrow>
     (case snd (parseResourcePoolManifests bm (manifest.ResourcePools m)) of
        Some e \<Rightarrow> Some (WrapErrorf e ''Parsing resource_pools: %#v''
                          [ArgResourcePools (manifest.ResourcePools m)])
      | None \<Rightarrow>
     (case snd (parseDiskPoolManifests bm (manifest.DiskPools m)) of
        Some e \<Rightarrow> Some (WrapErrorf e ''Parsing disk_pools: %#v''
                          [ArgDiskPools (manifest.DiskPools m)])
      | None \<Rightarrow>
     (case snd (parseJobManifests bm (manifest.Jobs m)) of
        Some e \<Rightarrow> Some (WrapErrorf e ''Parsing jobs: %#v'' [ArgJobs (manifest.Jobs m)])
      | None \<Rightarrow>
     (case snd (bm (manifest.Properties m)) of
        Some e \<Rightarrow> Some (WrapErrorf e ''Parsing global manifest properties: %#v''
                          [ArgProperties (manifest.Properties m)])
      | None \<Rightarrow>
     (case UpdateSpec.UpdateWatchTime (manifest.Update m) of
        None \<Rightarrow> None
      | Some x \<Rightarrow>
          (case snd (nwt x) of
             Some e \<Rightarrow> Some (WrapError e ''Parsing update watch time'')
           | None \<Rightarrow> None)))))))"
proof -
  obtain ns en where n: "parseNetworkManifests bm (manifest.Networks m) = (ns, en)"
    by (cases "parseNetworkManifests bm (manifest.Networks m)")
  obtain rs er where r: "parseResourcePoolManifests bm (manifest.ResourcePools m) = (rs, er)"
    by (cases "parseResourcePoolManifests bm (manifest.ResourcePools m)")
  obtain ds ed where d: "parseDiskPoolManifests bm (manifest.DiskPools m) = (ds, ed)"
    by (cases "parseDiskPoolManifests bm (manifest.DiskPools m)")
  obtain js ej where j: "parseJobManifests bm (manifest.Jobs m) = (js, ej)"
    by (cases "parseJobManifests bm (manifest.Jobs m)")
  obtain ps ep where p: "bm (manifest.Properties m) = (ps, ep)"
    by (cases "bm (manifest.Properties m)")
  show ?thesis
  proof (cases "UpdateSpec.UpdateWatchTime (manifest.Update m)")
    case None
    then show ?thesis
      by (cases en; cases er; cases ed; cases ej; cases ep)
         (simp_all add: parseDeploymentManifest_def n r d j p)
  next
    case (Some x)
    obtain w ew where w: "nwt x = (w, ew)" by (cases "nwt x")
    with Some show ?thesis
      by (cases en; cases er; cases ed; cases ej; cases ep; cases ew)
         (simp_all add: parseDeploymentManifest_def n r d j p)
  qed
qed


lemma parseDeploymentManifest_result:
  "snd (parseDeploymentManifest bm nwt m) = Some e \<Longrightarrow>
     parseDeploymentManifest bm nwt m = (Manifest_zero, Some e)"
  using parseDeploymentManifest_zero [of bm nwt m "fst (parseDeploymentManifest bm nwt m)" e]
  by (simp add: prod_eq_iff)

lemma parseDeploymentManifest_cause:
  assumes "Some c \<in> set (stageErrors bm nwt m)"
  shows "\<exists>e c'. snd (parseDeploymentManifest bm nwt m) = Some e \<and> cause e = Some c' \<and>
            Some c' \<in> set (stageErrors bm nwt m)"
proof -
  let ?n = "snd (parseNetworkManifests bm (manifest.Networks m))"
  let ?r = "snd (parseResourcePoolManifests bm (manifest.ResourcePools m))"
  let ?d = "snd (parseDiskPoolManifests bm (manifest.DiskPools m))"
  let ?j = "snd (parseJobManifests bm (manifest.Jobs m))"
  let ?p = "snd (bm (manifest.Properties m))"
  let ?w = "case UpdateSpec.UpdateWatchTime (manifest.Update m) of
              None \<Rightarrow> None | Some x \<Rightarrow> snd (nwt x)"
  have s: "stageErrors bm nwt m = [?n, ?r, ?d, ?j, ?p, ?w]"
    by (simp add: stageErrors_def)
  from assms s have some: "?n \<noteq> None \<or> ?r \<noteq> None \<or> ?d \<noteq> None \<or> ?j \<noteq> None \<or> ?p \<noteq> None \<or> ?w \<noteq> None"
    by (metis insert_iff list.simps(15) empty_iff empty_set option.distinct(1))
  show ?thesis
  proof (cases ?n)
    case (Some e)
    then show ?thesis unfolding s by (simp add: parseDeploymentManifest_snd)
  next
    case n: None
    show ?thesis
    proof (cases ?r)
      case (Some e)
      with n show ?thesis unfolding s by (simp add: parseDeploymentManifest_snd)
    next
      case r: None
      show ?thesis
      proof (cases ?d)
        case (Some e)
        with n r show ?thesis unfolding s by (simp add: parseDeploymentManifest_snd)
      next
        case d: None
        show ?thesis
        proof (cases ?j)
          case (Some e)
          with n r d show ?thesis unfolding s by (simp add: parseDeploymentManifest_snd)
        next
          case j: None
          show ?thesis
          proof (cases ?p)
            case (Some e)
            with n r d j show ?thesis unfolding s by (simp add: parseDeploymentManifest_snd)
          next
            case p: None
            with some n r d j obtain e where w: "?w = Some e" by auto
            then obtain x where x: "UpdateSpec.UpdateWatchTime (manifest.Update m) = Some x"
              and e: "snd (nwt x) = Some e"
              by (auto split: option.splits)
            with n r d j p show ?thesis unfolding s by (simp add: parseDeploymentManifest_snd)
          qed
        qed
      qed
    qed
  qed
qed

lemma parseDeploymentManifest_succeeds:
  assumes "\<forall>s\<in>set (stageErrors bm nwt m). s = None"
  shows "snd (parseDeploymentManifest bm nwt m) = None"
  using assms
  by (auto simp: stageErrors_def parseDeploymentManifest_snd split: option.splits)

lemma jobEntry_cong:
  "(job.Properties r \<noteq> None \<longrightarrow> bm (job.Properties r) = bm' (job.Properties r)) \<Longrightarrow>
     jobEntry bm r = jobEntry bm' r"
  by (auto simp: jobEntry_def Let_def split: option.splits)

lemma jobEntry_Inl:
  "jobEntry bm r = Inl e \<Longrightarrow>
     job.Properties r \<noteq> None \<and> snd (bm (job.Properties r)) \<noteq> None"
  by (auto simp: jobEntry_def Let_def split: option.splits prod.splits)

lemma firstError_Some_iff:
  "firstError f xs \<noteq> None \<longleftrightarrow> (\<exists>x\<in>set xs. \<exists>e. f x = Inl e)"
proof -
  have "(\<exists>y. f x = Inr y) \<longleftrightarrow> \<not> (\<exists>e. f x = Inl e)" for x
    by (cases "f x") auto
  then show ?thesis using firstError_None_iff [of f xs] by auto
qed

lemma resourcePoolEntry_cloud:
  "snd (bm (resourcePool.CloudProperties r)) = Some e \<Longrightarrow>
     resourcePoolEntry bm r =
       Inl (WrapErrorf e ''Parsing resource_pool '%s' cloud_properties: %#v''
              [ArgString (resourcePool.Name r), ArgProperties (resourcePool.CloudProperties r)])"
  by (cases "bm (resourcePool.CloudProperties r)") (simp add: resourcePoolEntry_def)

lemma resourcePoolEntry_env:
  "snd (bm (resourcePool.CloudProperties r)) = None \<Longrightarrow>
   snd (bm (resourcePool.Env r)) = Some e \<Longrightarrow>
     resourcePoolEntry bm r =
       Inl (WrapErrorf e ''Parsing resource_pool '%s' env: %#v''
              [ArgString (resourcePool.Name r), ArgProperties (resourcePool.Env r)])"
  by (cases "bm (resourcePool.CloudProperties r)"; cases "bm (resourcePool.Env r)")
     (simp add: resourcePoolEntry_def)

lemma resourcePoolEntry_Inr_iff:
  "(\<exists>p. resourcePoolEntry bm r = Inr p) \<longleftrightarrow>
     snd (bm (resourcePool.CloudProperties r)) = None \<and> snd (bm (resourcePool.Env r)) = None"
  by (cases "bm (resourcePool.CloudProperties r)"; cases "bm (resourcePool.Env r)")
     (auto simp: resourcePoolEntry_def split: option.splits)

lemma diskPoolEntry_cloud:
  "snd (bm (diskPool.CloudProperties r)) = Some e \<Longrightarrow>
     diskPoolEntry bm r =
       Inl (WrapErrorf e ''Parsing disk_pool '%s' cloud_properties: %#v''
              [ArgString (diskPool.Name r), ArgProperties (diskPool.CloudProperties r)])"
  by (cases "bm (diskPool.CloudProperties r)") (simp add: diskPoolEntry_def)

lemma diskPoolEntry_Inr_iff:
  "(\<exists>p. diskPoolEntry bm r = Inr p) \<longleftrightarrow> snd (bm (diskPool.CloudProperties r)) = None"
  by (cases "bm (diskPool.CloudProperties r)")
     (auto simp: diskPoolEntry_def split: option.splits)

lemma parseResourcePoolManifests_snd:
  "snd (parseResourcePoolManifests bm raw) = firstError (resourcePoolEntry bm) (slice_elems raw)"
  by (simp add: parseResourcePoolManifests_fill fillSlice_snd)

lemma parseDiskPoolManifests_snd:
  "snd (parseDiskPoolManifests bm raw) = firstError (diskPoolEntry bm) (slice_elems raw)"
  by (simp add: parseDiskPoolManifests_fill fillSlice_snd)

lemma parseResourcePoolManifests_fails_iff:
  "snd (parseResourcePoolManifests bm raw) \<noteq> None \<longleftrightarrow>
     (\<exists>r\<in>set (slice_elems raw).
        snd (bm (resourcePool.CloudProperties r)) \<noteq> None \<or> snd (bm (resourcePool.Env r)) \<noteq> None)"
  unfolding parseResourcePoolManifests_snd
  using firstError_None_iff [of "resourcePoolEntry bm" "slice_elems raw"]
  by (auto simp: resourcePoolEntry_Inr_iff)

lemma parseDiskPoolManifests_fails_iff:
  "snd (parseDiskPoolManifests bm raw) \<noteq> None \<longleftrightarrow>
     (\<exists>r\<in>set (slice_elems raw). snd (bm (diskPool.CloudProperties r)) \<noteq> None)"
  unfolding parseDiskPoolManifests_snd
  using firstError_None_iff [of "diskPoolEntry bm" "slice_elems raw"]
  by (auto simp: diskPoolEntry_Inr_iff)

lemma parseResourcePoolManifests_first:
  assumes "i < slice_len raw"
    and "\<forall>k<i. snd (bm (resourcePool.CloudProperties (slice_elems raw ! k))) = None \<and>
               snd (bm (resourcePool.Env (slice_elems raw ! k))) = None"
    and "resourcePoolEntry bm (slice_elems raw ! i) = Inl e"
  shows "snd (parseResourcePoolManifests bm raw) = Some e"
proof -
  from assms(1) have "i < length (slice_elems raw)" by (simp add: slice_len_elems)
  moreover from assms(2)
  have "\<forall>k<i. \<exists>p. resourcePoolEntry bm (slice_elems raw ! k) = Inr p"
    by (simp add: resourcePoolEntry_Inr_iff)
  ultimately have "firstError (resourcePoolEntry bm) (slice_elems raw) = Some e"
    using assms(3) by (rule firstError_first)
  then show ?thesis by (simp add: parseResourcePoolManifests_snd)
qed

lemma parseDiskPoolManifests_first:
  assumes "i < slice_len raw"
    and "\<forall>k<i. snd (bm (diskPool.CloudProperties (slice_elems raw ! k))) = None"
    and "diskPoolEntry bm (slice_elems raw ! i) = Inl e"
  shows "snd (parseDiskPoolManifests bm raw) = Some e"
proof -
  from assms(1) have "i < length (slice_elems raw)" by (simp add: slice_len_elems)
  moreover from assms(2)
  have "\<forall>k<i. \<exists>p. diskPoolEntry bm (slice_elems raw ! k) = Inr p"
    by (simp add: diskPoolEntry_Inr_iff)
  ultimately have "firstError (diskPoolEntry bm) (slice_elems raw) = Some e"
    using assms(3) by (rule firstError_first)
  then show ?thesis by (simp add: parseDiskPoolManifests_snd)
qed

lemma parseResourcePoolManifests_scalars:
  assumes "parseResourcePoolManifests bm raw = (pools, None)"
  shows "\<exists>out. pools = Some out \<and> length out = slice_len raw \<and>
           (\<forall>i<length out.
              ResourcePool.Name (out ! i) = resourcePool.Name (slice_elems raw ! i) \<and>
              ResourcePool.Network (out ! i) = resourcePool.Network (slice_elems raw ! i))"
proof -
  from parseResourcePoolManifests_nth [OF assms] obtain out
    where o: "pools = Some out" "length out = slice_len raw"
      and e: "\<forall>i<length out. resourcePoolEntry bm (slice_elems raw ! i) = Inr (out ! i)"
    by blast
  have "ResourcePool.Name (out ! i) = resourcePool.Name (slice_elems raw ! i) \<and>
        ResourcePool.Network (out ! i) = resourcePool.Network (slice_elems raw ! i)"
    if "i < length out" for i
  proof -
    from e that have "resourcePoolEntry bm (slice_elems raw ! i) = Inr (out ! i)" by simp
    from resourcePoolEntry_Inr [OF this] show ?thesis
      by (metis ResourcePool.select_convs(1,2))
  qed
  with o show ?thesis by blast
qed

lemma parseDiskPoolManifests_scalars:
  assumes "parseDiskPoolManifests bm raw = (pools, None)"
  shows "\<exists>out. pools = Some out \<and> length out = slice_len raw \<and>
           (\<forall>i<length out.
              DiskPool.Name (out ! i) = diskPool.Name (slice_elems raw ! i) \<and>
              DiskPool.DiskSize (out ! i) = diskPool.DiskSize (slice_elems raw ! i))"
proof -
  from parseDiskPoolManifests_nth [OF assms] obtain out
    where o: "pools = Some out" "length out = slice_len raw"
      and e: "\<forall>i<length out. diskPoolEntry bm (slice_elems raw ! i) = Inr (out ! i)"
    by blast
  have "DiskPool.Name (out ! i) = diskPool.Name (slice_elems raw ! i) \<and>
        DiskPool.DiskSize (out ! i) = diskPool.DiskSize (slice_elems raw ! i)"
    if "i < length out" for i
  proof -
    from e that have "diskPoolEntry bm (slice_elems raw ! i) = Inr (out ! i)" by simp
    from diskPoolEntry_Inr [OF this] show ?thesis
      by (metis DiskPool.select_convs(1,2))
  qed
  with o show ?thesis by blast
qed

section \<open>What the outcome does not depend on\<close>

lemma parseDeploymentManifest_snd_Name:
  "snd (parseDeploymentManifest bm nwt (m\<lparr>manifest.Name := n\<rparr>)) =
     snd (parseDeploymentManifest bm nwt m)"
  by (simp add: parseDeploymentManifest_snd cong: option.case_cong)

lemma parseDeploymentManifest_rename:
  assumes "parseDeploymentManifest bm nwt m = (d, None)"
  shows "parseDeploymentManifest bm nwt (m\<lparr>manifest.Name := n\<rparr>) =
           (d\<lparr>Manifest.Name := n\<rparr>, None)"
proof -
  let ?m = "m\<lparr>manifest.Name := n\<rparr>"
  from assms have "snd (parseDeploymentManifest bm nwt ?m) = None"
    by (simp add: parseDeploymentManifest_snd_Name)
  then obtain d' where d': "parseDeploymentManifest bm nwt ?m = (d', None)"
    by (cases "parseDeploymentManifest bm nwt ?m") simp
  from parseDeploymentManifest_ok [OF assms] parseDeploymentManifest_ok [OF d']
  have "d' = d\<lparr>Manifest.Name := n\<rparr>" by auto
  with d' show ?thesis by simp
qed

lemma firstError_rel:
  "list_all2 (\<lambda>x y. \<forall>e. (f x = Inl e) = (g y = Inl e)) xs ys \<Longrightarrow>
     firstError f xs = firstError g ys"
proof (induction xs ys rule: list_all2_induct)
  case Nil
  then show ?case by simp
next
  case (Cons x xs y ys)
  show ?case
  proof (cases "f x")
    case (Inl e)
    with Cons.hyps(1) have "g y = Inl e" by blast
    with Inl show ?thesis by simp
  next
    case (Inr a)
    have "\<forall>e. g y \<noteq> Inl e"
    proof (intro allI notI)
      fix e assume "g y = Inl e"
      with Cons.hyps(1) have "f x = Inl e" by blast
      with Inr show False by simp
    qed
    then obtain b where "g y = Inr b" by (cases "g y") auto
    with Inr Cons.IH show ?thesis by simp
  qed
qed

lemma jobEntry_Instances:
  "(jobEntry bm (r\<lparr>job.Instances := n\<rparr>) = Inl e) = (jobEntry bm r = Inl e)"
  by (auto simp: jobEntry_def Let_def split: option.splits prod.splits)

lemma parseJobManifests_snd:
  "snd (parseJobManifests bm raw) = firstError (jobEntry bm) (slice_elems raw)"
  by (simp add: parseJobManifests_fill fillSlice_snd)

lemma parseJobManifests_snd_Instances:
  assumes "list_all2 (\<lambda>r r'. \<exists>n. r' = r\<lparr>job.Instances := n\<rparr>) (slice_elems raw) (slice_elems raw')"
  shows "snd (parseJobManifests bm raw') = snd (parseJobManifests bm raw)"
proof -
  from assms
  have "list_all2 (\<lambda>x y. \<forall>e. (jobEntry bm x = Inl e) = (jobEntry bm y = Inl e))
          (slice_elems raw) (slice_elems raw')"
    by (rule list_all2_mono) (auto simp: jobEntry_Instances)
  from firstError_rel [OF this] show ?thesis
    by (simp add: parseJobManifests_snd)
qed

section \<open>Claims\<close>

text \<open>
  C1. When the document supplies no update watch time expression, a successful parse
  gives the default update policy, start 0 and end 300000: the value of
  \<open>boshDeploymentDefaults\<close>, which the orchestrator starts from, stands unchanged.
  The watch time parser is not consulted, so the result is the same whichever
  parser is supplied. The same holds for \<open>Parse\<close> on a file that is read and decoded.
\<close>

theorem default_update_when_absent:
  "(UpdateSpec.UpdateWatchTime (manifest.Update depManifest) = None \<and>
    parseDeploymentManifest buildMap newWatchTime depManifest = (deployment, None) \<longrightarrow>
      Manifest.Update deployment = Manifest.Update boshDeploymentDefaults \<and>
      Manifest.Update deployment =
        \<lparr>Update.UpdateWatchTime = \<lparr>WatchTime.Start = 0, End = 300000\<rparr>\<rparr> \<and>
      parseDeploymentManifest buildMap otherWatchTime depManifest = (deployment, None))
   \<and>
   (readFile path = (contents, None) \<and>
    unmarshal contents manifest_zero = (depManifest, None) \<and>
    UpdateSpec.UpdateWatchTime (manifest.Update depManifest) = None \<and>
    Parse readFile unmarshal buildMap newWatchTime path = (parsed, None) \<longrightarrow>
      Manifest.Update parsed =
        \<lparr>Update.UpdateWatchTime = \<lparr>WatchTime.Start = 0, End = 300000\<rparr>\<rparr>)"
proof (intro conjI impI)
  assume a: "UpdateSpec.UpdateWatchTime (manifest.Update depManifest) = None \<and>
    parseDeploymentManifest buildMap newWatchTime depManifest = (deployment, None)"
  with parseDeploymentManifest_ok [of buildMap newWatchTime depManifest deployment]
  show u: "Manifest.Update deployment = Manifest.Update boshDeploymentDefaults"
    by auto
  then show "Manifest.Update deployment =
      \<lparr>Update.UpdateWatchTime = \<lparr>WatchTime.Start = 0, End = 300000\<rparr>\<rparr>"
    by (simp add: boshDeploymentDefaults_Update)
  from a show "parseDeploymentManifest buildMap otherWatchTime depManifest = (deployment, None)"
    using parseDeploymentManifest_no_watch [of depManifest buildMap otherWatchTime newWatchTime]
    by simp
next
  assume a: "readFile path = (contents, None) \<and>
    unmarshal contents manifest_zero = (depManifest, None) \<and>
    UpdateSpec.UpdateWatchTime (manifest.Update depManifest) = None \<and>
    Parse readFile unmarshal buildMap newWatchTime path = (parsed, None)"
  then have "parseDeploymentManifest buildMap newWatchTime depManifest = (parsed, None)"
    by (blast intro: Parse_ok)
  with a parseDeploymentManifest_ok [of buildMap newWatchTime depManifest parsed]
  show "Manifest.Update parsed =
      \<lparr>Update.UpdateWatchTime = \<lparr>WatchTime.Start = 0, End = 300000\<rparr>\<rparr>"
    by (auto simp: boshDeploymentDefaults_Update)
qed

theorem default_update_when_absent_witness:
  "UpdateSpec.UpdateWatchTime (manifest.Update ex_manifest) = None \<and>
   snd (parseDeploymentManifest BuildMap NewWatchTime ex_manifest) = None \<and>
   ex_readFile ''good.yml'' = (''good'', None) \<and>
   ex_unmarshal ''good'' manifest_zero = (ex_manifest, None) \<and>
   snd (Parse ex_readFile ex_unmarshal BuildMap NewWatchTime ''good.yml'') = None \<and>
   Manifest.Update (fst (parseDeploymentManifest BuildMap NewWatchTime ex_manifest)) =
     \<lparr>Update.UpdateWatchTime = \<lparr>WatchTime.Start = 0, End = 300000\<rparr>\<rparr> \<and>
   Manifest.Update (fst (Parse ex_readFile ex_unmarshal BuildMap NewWatchTime ''good.yml'')) =
     \<lparr>Update.UpdateWatchTime = \<lparr>WatchTime.Start = 0, End = 300000\<rparr>\<rparr>"
proof -
  have h1: "UpdateSpec.UpdateWatchTime (manifest.Update ex_manifest) = None"
    by code_simp
  have h2: "snd (parseDeploymentManifest BuildMap NewWatchTime ex_manifest) = None"
    by code_simp
  have h3: "ex_readFile ''good.yml'' = (''good'', None)"
    by code_simp
  have h4: "ex_unmarshal ''good'' manifest_zero = (ex_manifest, None)"
    by code_simp
  have h5: "snd (Parse ex_readFile ex_unmarshal BuildMap NewWatchTime ''good.yml'') = None"
    by code_simp
  from h2 have p: "parseDeploymentManifest BuildMap NewWatchTime ex_manifest =
      (fst (parseDeploymentManifest BuildMap NewWatchTime ex_manifest), None)"
    by (simp add: prod_eq_iff)
  from h5 have q: "Parse ex_readFile ex_unmarshal BuildMap NewWatchTime ''good.yml'' =
      (fst (Parse ex_readFile ex_unmarshal BuildMap NewWatchTime ''good.yml''), None)"
    by (simp add: prod_eq_iff)
  from default_update_when_absent
    [of ex_manifest BuildMap NewWatchTime
        "fst (parseDeploymentManifest BuildMap NewWatchTime ex_manifest)" NewWatchTime
        ex_readFile "''good.yml''" "''good''" ex_unmarshal
        "fst (Parse ex_readFile ex_unmarshal BuildMap NewWatchTime ''good.yml'')"]
    h1 h2 h3 h4 h5 p q
  show ?thesis by blast
qed

text \<open>
  C2. With the watch time parser of section 4.4, a document that supplies the
  expression \<open>1000-2000\<close> and parses successfully has the update interval
  (1000, 2000), and one that supplies \<open>5000\<close> alone has (0, 5000): the single
  literal is the end, and the start is 0. Both expressions are accepted by the
  watch time parser.
\<close>

theorem watch_time_expression_interval:
  "(UpdateSpec.UpdateWatchTime (manifest.Update depManifest) = Some ''1000-2000'' \<and>
    parseDeploymentManifest buildMap NewWatchTime depManifest = (deployment, None) \<longrightarrow>
      Manifest.Update deployment =
        \<lparr>Update.UpdateWatchTime = \<lparr>WatchTime.Start = 1000, End = 2000\<rparr>\<rparr>)
   \<and>
   (UpdateSpec.UpdateWatchTime (manifest.Update depManifest') = Some ''5000'' \<and>
    parseDeploymentManifest buildMap NewWatchTime depManifest' = (deployment', None) \<longrightarrow>
      Manifest.Update deployment' =
        \<lparr>Update.UpdateWatchTime = \<lparr>WatchTime.Start = 0, End = 5000\<rparr>\<rparr>)
   \<and> NewWatchTime ''1000-2000'' = (\<lparr>WatchTime.Start = 1000, End = 2000\<rparr>, None)
   \<and> NewWatchTime ''5000'' = (\<lparr>WatchTime.Start = 0, End = 5000\<rparr>, None)"
  using parseDeploymentManifest_watch [of depManifest "''1000-2000''" buildMap NewWatchTime deployment]
    parseDeploymentManifest_watch [of depManifest' "''5000''" buildMap NewWatchTime deployment']
  by (auto simp: NewWatchTime_pair NewWatchTime_single)

theorem watch_time_expression_interval_witness:
  "UpdateSpec.UpdateWatchTime (manifest.Update ex_manifest_pair) = Some ''1000-2000'' \<and>
   snd (parseDeploymentManifest BuildMap NewWatchTime ex_manifest_pair) = None \<and>
   Manifest.Update (fst (parseDeploymentManifest BuildMap NewWatchTime ex_manifest_pair)) =
     \<lparr>Update.UpdateWatchTime = \<lparr>WatchTime.Start = 1000, End = 2000\<rparr>\<rparr> \<and>
   UpdateSpec.UpdateWatchTime (manifest.Update ex_manifest_single) = Some ''5000'' \<and>
   snd (parseDeploymentManifest BuildMap NewWatchTime ex_manifest_single) = None \<and>
   Manifest.Update (fst (parseDeploymentManifest BuildMap NewWatchTime ex_manifest_single)) =
     \<lparr>Update.UpdateWatchTime = \<lparr>WatchTime.Start = 0, End = 5000\<rparr>\<rparr>"
proof -
  let ?p = "parseDeploymentManifest BuildMap NewWatchTime ex_manifest_pair"
  let ?s = "parseDeploymentManifest BuildMap NewWatchTime ex_manifest_single"
  have h1: "UpdateSpec.UpdateWatchTime (manifest.Update ex_manifest_pair) = Some ''1000-2000''"
    by code_simp
  have h2: "snd ?p = None"
    by code_simp
  have h3: "UpdateSpec.UpdateWatchTime (manifest.Update ex_manifest_single) = Some ''5000''"
    by code_simp
  have h4: "snd ?s = None"
    by code_simp
  from h2 have p: "?p = (fst ?p, None)" by (simp add: prod_eq_iff)
  from h4 have s: "?s = (fst ?s, None)" by (simp add: prod_eq_iff)
  from watch_time_expression_interval
    [of ex_manifest_pair BuildMap "fst ?p" ex_manifest_single "fst ?s"] h1 h2 h3 h4 p s
  show ?thesis by blast
qed

text \<open>
  C3. Each of the four section parsers (networks, resource pools, disk pools, jobs),
  when it returns without error, returns a sequence of exactly the input's length
  in which the entry at every index \<open>i\<close> is the one its loop body builds from the
  input entry at index \<open>i\<close>, and so carries that entry's name.
\<close>

theorem section_parsers_preserve_index:
  "(parseNetworkManifests buildMap rawNetworks = (networks, None) \<longrightarrow>
      (\<exists>out. networks = Some out \<and> length out = slice_len rawNetworks \<and>
         (\<forall>i<length out.
            networkEntry buildMap (slice_elems rawNetworks ! i) = Inr (out ! i) \<and>
            Network.Name (out ! i) = network.Name (slice_elems rawNetworks ! i))))
   \<and>
   (parseResourcePoolManifests buildMap rawResourcePools = (resourcePools, None) \<longrightarrow>
      (\<exists>out. resourcePools = Some out \<and> length out = slice_len rawResourcePools \<and>
         (\<forall>i<length out.
            resourcePoolEntry buildMap (slice_elems rawResourcePools ! i) = Inr (out ! i) \<and>
            ResourcePool.Name (out ! i) = resourcePool.Name (slice_elems rawResourcePools ! i))))
   \<and>
   (parseDiskPoolManifests buildMap rawDiskPools = (diskPools, None) \<longrightarrow>
      (\<exists>out. diskPools = Some out \<and> length out = slice_len rawDiskPools \<and>
         (\<forall>i<length out.
            diskPoolEntry buildMap (slice_elems rawDiskPools ! i) = Inr (out ! i) \<and>
            DiskPool.Name (out ! i) = diskPool.Name (slice_elems rawDiskPools ! i))))
   \<and>
   (parseJobManifests buildMap rawJobs = (jobs, None) \<longrightarrow>
      (\<exists>out. jobs = Some out \<and> length out = slice_len rawJobs \<and>
         (\<forall>i<length out.
            jobEntry buildMap (slice_elems rawJobs ! i) = Inr (out ! i) \<and>
            Job.Name (out ! i) = job.Name (slice_elems rawJobs ! i))))"
proof (intro conjI impI)
  assume "parseNetworkManifests buildMap rawNetworks = (networks, None)"
  from parseNetworkManifests_nth [OF this]
  show "\<exists>out. networks = Some out \<and> length out = slice_len rawNetworks \<and>
         (\<forall>i<length out.
            networkEntry buildMap (slice_elems rawNetworks ! i) = Inr (out ! i) \<and>
            Network.Name (out ! i) = network.Name (slice_elems rawNetworks ! i))"
    by (auto dest: networkEntry_Name)
next
  assume "parseResourcePoolManifests buildMap rawResourcePools = (resourcePools, None)"
  from parseResourcePoolManifests_nth [OF this]
  show "\<exists>out. resourcePools = Some out \<and> length out = slice_len rawResourcePools \<and>
         (\<forall>i<length out.
            resourcePoolEntry buildMap (slice_elems rawResourcePools ! i) = Inr (out ! i) \<and>
            ResourcePool.Name (out ! i) = resourcePool.Name (slice_elems rawResourcePools ! i))"
    by (auto dest: resourcePoolEntry_Name)
next
  assume "parseDiskPoolManifests buildMap rawDiskPools = (diskPools, None)"
  from parseDiskPoolManifests_nth [OF this]
  show "\<exists>out. diskPools = Some out \<and> length out = slice_len rawDiskPools \<and>
         (\<forall>i<length out.
            diskPoolEntry buildMap (slice_elems rawDiskPools ! i) = Inr (out ! i) \<and>
            DiskPool.Name (out ! i) = diskPool.Name (slice_elems rawDiskPools ! i))"
    by (auto dest: diskPoolEntry_Name)
next
  assume "parseJobManifests buildMap rawJobs = (jobs, None)"
  from parseJobManifests_nth [OF this]
  show "\<exists>out. jobs = Some out \<and> length out = slice_len rawJobs \<and>
         (\<forall>i<length out.
            jobEntry buildMap (slice_elems rawJobs ! i) = Inr (out ! i) \<and>
            Job.Name (out ! i) = job.Name (slice_elems rawJobs ! i))"
    by (auto dest: jobEntry_Name)
qed

theorem section_parsers_preserve_index_witness:
  "snd (parseNetworkManifests BuildMap (Some [ex_network])) = None \<and>
   snd (parseResourcePoolManifests BuildMap (Some [ex_resourcePool])) = None \<and>
   snd (parseDiskPoolManifests BuildMap (Some [ex_diskPool])) = None \<and>
   snd (parseJobManifests BuildMap (Some [ex_job, ex_errand])) = None \<and>
   (\<exists>out. fst (parseNetworkManifests BuildMap (Some [ex_network])) = Some out \<and>
      length out = 1 \<and> Network.Name (out ! 0) = ''default'') \<and>
   (\<exists>out. fst (parseResourcePoolManifests BuildMap (Some [ex_resourcePool])) = Some out \<and>
      length out = 1 \<and> ResourcePool.Name (out ! 0) = []) \<and>
   (\<exists>out. fst (parseDiskPoolManifests BuildMap (Some [ex_diskPool])) = Some out \<and>
      length out = 1 \<and> DiskPool.Name (out ! 0) = ''disks'') \<and>
   (\<exists>out. fst (parseJobManifests BuildMap (Some [ex_job, ex_errand])) = Some out \<and>
      length out = 2 \<and> Job.Name (out ! 0) = ''web'' \<and> Job.Name (out ! 1) = ''smoke'')"
proof -
  let ?n = "parseNetworkManifests BuildMap (Some [ex_network])"
  let ?r = "parseResourcePoolManifests BuildMap (Some [ex_resourcePool])"
  let ?d = "parseDiskPoolManifests BuildMap (Some [ex_diskPool])"
  let ?j = "parseJobManifests BuildMap (Some [ex_job, ex_errand])"
  have h1: "snd ?n = None" by code_simp
  have h2: "snd ?r = None" by code_simp
  have h3: "snd ?d = None" by code_simp
  have h4: "snd ?j = None" by code_simp
  have n: "?n = (fst ?n, None)" using h1 by (simp add: prod_eq_iff)
  have r: "?r = (fst ?r, None)" using h2 by (simp add: prod_eq_iff)
  have d: "?d = (fst ?d, None)" using h3 by (simp add: prod_eq_iff)
  have j: "?j = (fst ?j, None)" using h4 by (simp add: prod_eq_iff)
  have names: "network.Name ex_network = ''default''" "resourcePool.Name ex_resourcePool = []"
    "diskPool.Name ex_diskPool = ''disks''" "job.Name ex_job = ''web''"
    "job.Name ex_errand = ''smoke''"
    by (simp_all add: ex_network_def ex_resourcePool_def ex_diskPool_def ex_job_def ex_errand_def)
  note t = section_parsers_preserve_index
    [where buildMap = BuildMap and rawNetworks = "Some [ex_network]" and networks = "fst ?n"
       and rawResourcePools = "Some [ex_resourcePool]" and resourcePools = "fst ?r"
       and rawDiskPools = "Some [ex_diskPool]" and diskPools = "fst ?d"
       and rawJobs = "Some [ex_job, ex_errand]" and jobs = "fst ?j"]
  from t n have "\<exists>out. fst ?n = Some out \<and> length out = 1 \<and> Network.Name (out ! 0) = ''default''"
    by (auto simp: slice_len_def slice_elems_def names)
  moreover
  from t r have "\<exists>out. fst ?r = Some out \<and> length out = 1 \<and> ResourcePool.Name (out ! 0) = []"
    by (auto simp: slice_len_def slice_elems_def names)
  moreover
  from t d have "\<exists>out. fst ?d = Some out \<and> length out = 1 \<and> DiskPool.Name (out ! 0) = ''disks''"
    by (auto simp: slice_len_def slice_elems_def names)
  moreover
  from t j have "\<exists>out. fst ?j = Some out \<and> length out = 2 \<and> Job.Name (out ! 0) = ''web'' \<and>
      Job.Name (out ! 1) = ''smoke''"
    by (auto simp: slice_len_def slice_elems_def names)
  ultimately show ?thesis using h1 h2 h3 h4 by blast
qed

text \<open>
  C6 (as stated, refuted). The claim says that a successful parse always yields a
  non-empty name. The document \<open>ex_manifest_noname\<close>, whose name is absent, parses
  without error, through \<open>parseDeploymentManifest\<close> and through \<open>Parse\<close>, and the
  resulting model's name is the empty string.
\<close>

theorem empty_name_accepted:
  "manifest.Name ex_manifest_noname = [] \<and>
   snd (parseDeploymentManifest BuildMap NewWatchTime ex_manifest_noname) = None \<and>
   Manifest.Name (fst (parseDeploymentManifest BuildMap NewWatchTime ex_manifest_noname)) = [] \<and>
   snd (Parse ex_readFile ex_unmarshal BuildMap NewWatchTime ''noname.yml'') = None \<and>
   Manifest.Name (fst (Parse ex_readFile ex_unmarshal BuildMap NewWatchTime ''noname.yml'')) = []"
  by code_simp

text \<open>
  C6 (amended). On every successful parse the resulting model's name is the
  document's name, copied unchanged, so it is empty exactly when the document's
  name is absent or empty. The parser does not check the name: whether the parse
  fails, and with which error, is the same whatever the name is, and a successful
  parse of the document under another name gives the same model under that name.
\<close>

theorem name_copied_verbatim:
  "(parseDeploymentManifest buildMap newWatchTime depManifest = (deployment, None) \<longrightarrow>
      Manifest.Name deployment = manifest.Name depManifest \<and>
      (Manifest.Name deployment = [] \<longleftrightarrow> manifest.Name depManifest = []))
   \<and>
   (readFile path = (contents, None) \<and>
    unmarshal contents manifest_zero = (depManifest, None) \<and>
    Parse readFile unmarshal buildMap newWatchTime path = (parsed, None) \<longrightarrow>
      Manifest.Name parsed = manifest.Name depManifest)
   \<and>
   snd (parseDeploymentManifest buildMap newWatchTime
          (depManifest\<lparr>manifest.Name := anyName\<rparr>)) =
     snd (parseDeploymentManifest buildMap newWatchTime depManifest)
   \<and>
   (parseDeploymentManifest buildMap newWatchTime depManifest = (deployment, None) \<longrightarrow>
      parseDeploymentManifest buildMap newWatchTime
          (depManifest\<lparr>manifest.Name := anyName\<rparr>) =
        (deployment\<lparr>Manifest.Name := anyName\<rparr>, None))"
proof (intro conjI impI)
  assume "parseDeploymentManifest buildMap newWatchTime depManifest = (deployment, None)"
  from parseDeploymentManifest_ok [OF this]
  show n: "Manifest.Name deployment = manifest.Name depManifest" by auto
  then show "Manifest.Name deployment = [] \<longleftrightarrow> manifest.Name depManifest = []" by simp
next
  assume "readFile path = (contents, None) \<and>
    unmarshal contents manifest_zero = (depManifest, None) \<and>
    Parse readFile unmarshal buildMap newWatchTime path = (parsed, None)"
  then have "parseDeploymentManifest buildMap newWatchTime depManifest = (parsed, None)"
    by (blast intro: Parse_ok)
  from parseDeploymentManifest_ok [OF this]
  show "Manifest.Name parsed = manifest.Name depManifest" by auto
next
  show "snd (parseDeploymentManifest buildMap newWatchTime
          (depManifest\<lparr>manifest.Name := anyName\<rparr>)) =
     snd (parseDeploymentManifest buildMap newWatchTime depManifest)"
    by (rule parseDeploymentManifest_snd_Name)
next
  assume "parseDeploymentManifest buildMap newWatchTime depManifest = (deployment, None)"
  then show "parseDeploymentManifest buildMap newWatchTime
          (depManifest\<lparr>manifest.Name := anyName\<rparr>) =
        (deployment\<lparr>Manifest.Name := anyName\<rparr>, None)"
    by (rule parseDeploymentManifest_rename)
qed

theorem name_copied_verbatim_witness:
  "snd (parseDeploymentManifest BuildMap NewWatchTime ex_manifest) = None \<and>
   ex_readFile ''good.yml'' = (''good'', None) \<and>
   ex_unmarshal ''good'' manifest_zero = (ex_manifest, None) \<and>
   snd (Parse ex_readFile ex_unmarshal BuildMap NewWatchTime ''good.yml'') = None \<and>
   Manifest.Name (fst (parseDeploymentManifest BuildMap NewWatchTime ex_manifest)) = ''dep'' \<and>
   Manifest.Name (fst (Parse ex_readFile ex_unmarshal BuildMap NewWatchTime ''good.yml'')) = ''dep'' \<and>
   snd (parseDeploymentManifest BuildMap NewWatchTime
          (ex_manifest\<lparr>manifest.Name := ''-dep''\<rparr>)) = None \<and>
   parseDeploymentManifest BuildMap NewWatchTime (ex_manifest\<lparr>manifest.Name := ''-dep''\<rparr>) =
     ((fst (parseDeploymentManifest BuildMap NewWatchTime ex_manifest))
        \<lparr>Manifest.Name := ''-dep''\<rparr>, None)"
proof -
  let ?p = "parseDeploymentManifest BuildMap NewWatchTime ex_manifest"
  let ?q = "Parse ex_readFile ex_unmarshal BuildMap NewWatchTime ''good.yml''"
  have h1: "snd ?p = None" by code_simp
  have h2: "ex_readFile ''good.yml'' = (''good'', None)" by code_simp
  have h3: "ex_unmarshal ''good'' manifest_zero = (ex_manifest, None)" by code_simp
  have h4: "snd ?q = None" by code_simp
  have n: "manifest.Name ex_manifest = ''dep''" by (simp add: ex_manifest_def)
  from h1 have p: "?p = (fst ?p, None)" by (simp add: prod_eq_iff)
  from h4 have q: "?q = (fst ?q, None)" by (simp add: prod_eq_iff)
  note t = name_copied_verbatim
    [where buildMap = BuildMap and newWatchTime = NewWatchTime and depManifest = ex_manifest
       and deployment = "fst ?p" and readFile = ex_readFile and unmarshal = ex_unmarshal
       and path = "''good.yml''" and contents = "''good''" and parsed = "fst ?q"
       and anyName = "''-dep''"]
  from t p n have r1: "Manifest.Name (fst ?p) = ''dep''" by simp
  from t h2 h3 q n have r2: "Manifest.Name (fst ?q) = ''dep''" by simp
  from t h1 have r3: "snd (parseDeploymentManifest BuildMap NewWatchTime
          (ex_manifest\<lparr>manifest.Name := ''-dep''\<rparr>)) = None"
    by simp
  from t p have r4: "parseDeploymentManifest BuildMap NewWatchTime
        (ex_manifest\<lparr>manifest.Name := ''-dep''\<rparr>) =
      ((fst ?p)\<lparr>Manifest.Name := ''-dep''\<rparr>, None)"
    by blast
  from h1 h2 h3 h4 r1 r2 r3 r4 show ?thesis by blast
qed

text \<open>
  C7 (as stated, refuted). The claim says that a job whose lifecycle tag is absent
  is given a non-empty default tag. The job \<open>ex_job\<close> has no lifecycle tag; it
  parses without error and the parsed job's tag is the empty string.
\<close>

theorem absent_lifecycle_stays_empty:
  "job.Lifecycle ex_job = [] \<and>
   snd (parseJobManifests BuildMap (Some [ex_job])) = None \<and>
   map Job.Lifecycle (slice_elems (fst (parseJobManifests BuildMap (Some [ex_job])))) =
     [JobLifecycle []]"
  by code_simp

text \<open>
  C7 (amended). On success the lifecycle tag of every parsed job is the raw
  entry's tag converted to \<open>JobLifecycle\<close> unchanged; the parser applies no
  default, so an absent tag stays the empty string.
\<close>

theorem lifecycle_converted_verbatim:
  "parseJobManifests buildMap rawJobs = (jobs, None) \<Longrightarrow>
     \<exists>out. jobs = Some out \<and> length out = slice_len rawJobs \<and>
       (\<forall>i<length out.
          Job.Lifecycle (out ! i) = JobLifecycle (job.Lifecycle (slice_elems rawJobs ! i)) \<and>
          (job.Lifecycle (slice_elems rawJobs ! i) = [] \<longrightarrow>
             Job.Lifecycle (out ! i) = JobLifecycle []))"
proof -
  assume "parseJobManifests buildMap rawJobs = (jobs, None)"
  from parseJobManifests_nth [OF this] obtain out
    where o: "jobs = Some out" "length out = slice_len rawJobs"
      and e: "\<forall>i<length out. jobEntry buildMap (slice_elems rawJobs ! i) = Inr (out ! i)"
    by blast
  have "Job.Lifecycle (out ! i) = JobLifecycle (job.Lifecycle (slice_elems rawJobs ! i))"
    if "i < length out" for i
    using e that jobEntry_Inr [of buildMap "slice_elems rawJobs ! i" "out ! i"]
    by (metis Job.select_convs(3))
  with o show ?thesis by auto
qed

theorem lifecycle_converted_verbatim_witness:
  "snd (parseJobManifests BuildMap (Some [ex_job, ex_errand])) = None \<and>
   (\<exists>out. fst (parseJobManifests BuildMap (Some [ex_job, ex_errand])) = Some out \<and>
      length out = 2 \<and>
      Job.Lifecycle (out ! 0) = JobLifecycle [] \<and>
      Job.Lifecycle (out ! 1) = JobLifecycle ''errand'')"
proof -
  let ?j = "parseJobManifests BuildMap (Some [ex_job, ex_errand])"
  have h: "snd ?j = None" by code_simp
  then have j: "?j = (fst ?j, None)" by (simp add: prod_eq_iff)
  have l: "job.Lifecycle ex_job = []" "job.Lifecycle ex_errand = ''errand''"
    by (simp_all add: ex_job_def ex_errand_def)
  from lifecycle_converted_verbatim [OF j]
  have "\<exists>out. fst ?j = Some out \<and> length out = 2 \<and>
      Job.Lifecycle (out ! 0) = JobLifecycle [] \<and>
      Job.Lifecycle (out ! 1) = JobLifecycle ''errand''"
    by (auto simp: slice_len_def slice_elems_def l)
  with h show ?thesis by blast
qed

text \<open>
  C8 (as stated, refuted). The claim says that the instance count of every
  successfully parsed job is non-negative. The job \<open>ex_negativeJob\<close> has the
  instance count -1; it parses without error and the parsed job's count is -1,
  which is not non-negative.
\<close>

theorem negative_instances_accepted:
  "job.Instances ex_negativeJob = - 1 \<and>
   snd (parseJobManifests BuildMap (Some [ex_negativeJob])) = None \<and>
   map Job.Instances (slice_elems (fst (parseJobManifests BuildMap (Some [ex_negativeJob])))) =
     [- 1] \<and>
   \<not> 0 \<le> Job.Instances (hd (slice_elems (fst (parseJobManifests BuildMap
                                                  (Some [ex_negativeJob])))))"
  by code_simp

text \<open>
  C8 (amended). On success the instance count of every parsed job is the raw
  entry's count, copied unchanged, so it is non-negative exactly when the
  document's count is. The parser does not check the count: whether the job parser
  fails, and with which error, is the same for two inputs that differ only in the
  instance counts of their entries.
\<close>

theorem instances_copied_verbatim:
  "(parseJobManifests buildMap rawJobs = (jobs, None) \<longrightarrow>
      (\<exists>out. jobs = Some out \<and> length out = slice_len rawJobs \<and>
         (\<forall>i<length out.
            Job.Instances (out ! i) = job.Instances (slice_elems rawJobs ! i) \<and>
            (0 \<le> Job.Instances (out ! i) \<longleftrightarrow> 0 \<le> job.Instances (slice_elems rawJobs ! i)))))
   \<and>
   (list_all2 (\<lambda>rawJob rawJob'. \<exists>n. rawJob' = rawJob\<lparr>job.Instances := n\<rparr>)
      (slice_elems rawJobs) (slice_elems rawJobs') \<longrightarrow>
      snd (parseJobManifests buildMap rawJobs') = snd (parseJobManifests buildMap rawJobs))"
proof (intro conjI impI)
  assume "parseJobManifests buildMap rawJobs = (jobs, None)"
  from parseJobManifests_nth [OF this] obtain out
    where o: "jobs = Some out" "length out = slice_len rawJobs"
      and e: "\<forall>i<length out. jobEntry buildMap (slice_elems rawJobs ! i) = Inr (out ! i)"
    by blast
  have "Job.Instances (out ! i) = job.Instances (slice_elems rawJobs ! i)"
    if "i < length out" for i
    using e that jobEntry_Inr [of buildMap "slice_elems rawJobs ! i" "out ! i"]
    by (metis Job.select_convs(2))
  with o show "\<exists>out. jobs = Some out \<and> length out = slice_len rawJobs \<and>
         (\<forall>i<length out.
            Job.Instances (out ! i) = job.Instances (slice_elems rawJobs ! i) \<and>
            (0 \<le> Job.Instances (out ! i) \<longleftrightarrow> 0 \<le> job.Instances (slice_elems rawJobs ! i)))"
    by auto
next
  assume "list_all2 (\<lambda>rawJob rawJob'. \<exists>n. rawJob' = rawJob\<lparr>job.Instances := n\<rparr>)
      (slice_elems rawJobs) (slice_elems rawJobs')"
  then show "snd (parseJobManifests buildMap rawJobs') = snd (parseJobManifests buildMap rawJobs)"
    by (rule parseJobManifests_snd_Instances)
qed

theorem instances_copied_verbatim_witness:
  "snd (parseJobManifests BuildMap (Some [ex_job, ex_errand])) = None \<and>
   (\<exists>out. fst (parseJobManifests BuildMap (Some [ex_job, ex_errand])) = Some out \<and>
      length out = 2 \<and> Job.Instances (out ! 0) = 2 \<and> Job.Instances (out ! 1) = - 1) \<and>
   snd (parseJobManifests BuildMap (Some [ex_negativeJob, ex_errand\<lparr>job.Instances := - 7\<rparr>])) =
     snd (parseJobManifests BuildMap (Some [ex_job, ex_errand])) \<and>
   snd (parseJobManifests BuildMap (Some [ex_negativeJob, ex_errand\<lparr>job.Instances := - 7\<rparr>])) =
     None"
proof -
  let ?jobs = "Some [ex_job, ex_errand]"
  let ?jobs' = "Some [ex_negativeJob, ex_errand\<lparr>job.Instances := - 7\<rparr>]"
  let ?j = "parseJobManifests BuildMap ?jobs"
  note t = instances_copied_verbatim
    [where buildMap = BuildMap and rawJobs = ?jobs and rawJobs' = ?jobs' and jobs = "fst ?j"]
  have h: "snd ?j = None" by code_simp
  then have j: "?j = (fst ?j, None)" by (simp add: prod_eq_iff)
  have l: "job.Instances ex_job = 2" "job.Instances ex_errand = - 1"
    by (simp_all add: ex_job_def ex_errand_def)
  from t [THEN conjunct1, THEN mp, OF j]
  have r1: "\<exists>out. fst ?j = Some out \<and> length out = 2 \<and>
      Job.Instances (out ! 0) = 2 \<and> Job.Instances (out ! 1) = - 1"
    by (auto simp: slice_len_def slice_elems_def l)
  have "\<exists>n. ex_negativeJob = ex_job\<lparr>job.Instances := n\<rparr>"
    by (auto simp: ex_negativeJob_def)
  moreover have "\<exists>n. ex_errand\<lparr>job.Instances := - 7\<rparr> = ex_errand\<lparr>job.Instances := n\<rparr>"
    by blast
  ultimately
  have a: "list_all2 (\<lambda>rawJob rawJob'. \<exists>n. rawJob' = rawJob\<lparr>job.Instances := n\<rparr>)
      (slice_elems ?jobs) (slice_elems ?jobs')"
    by (simp add: slice_elems_def)
  from t [THEN conjunct2, THEN mp, OF a]
  have r2: "snd (parseJobManifests BuildMap ?jobs') = snd ?j" .
  with h have r3: "snd (parseJobManifests BuildMap ?jobs') = None" by simp
  from h r1 r2 r3 show ?thesis by blast
qed

text \<open>
  C4. Whenever \<open>Parse\<close> or \<open>parseDeploymentManifest\<close> returns an error, the model
  returned beside it is the zero value \<open>Manifest{}\<close>, never a partly filled one.
  Whenever a section parser, the property tree builder on the global properties or
  the watch time parser fails on the document, \<open>parseDeploymentManifest\<close> fails with
  an error that wraps the error of such a failing stage, and \<open>Parse\<close> on a file that
  decodes to the document fails with that error wrapped once more, both beside the
  zero model.
\<close>

theorem failure_returns_zero_model:
  "(Parse readFile unmarshal buildMap newWatchTime path = (parsed, Some err) \<longrightarrow>
      parsed = Manifest_zero)
   \<and>
   (parseDeploymentManifest buildMap newWatchTime depManifest = (deployment, Some err) \<longrightarrow>
      deployment = Manifest_zero)
   \<and>
   (Some stageErr \<in> set (stageErrors buildMap newWatchTime depManifest) \<longrightarrow>
      (\<exists>e c. parseDeploymentManifest buildMap newWatchTime depManifest =
                (Manifest_zero, Some e) \<and>
              cause e = Some c \<and>
              Some c \<in> set (stageErrors buildMap newWatchTime depManifest) \<and>
              (readFile path = (contents, None) \<and>
               unmarshal contents manifest_zero = (depManifest, None) \<longrightarrow>
                 Parse readFile unmarshal buildMap newWatchTime path =
                   (Manifest_zero,
                    Some (WrapError e ''Unmarshalling BOSH deployment manifest'')))))"
proof (intro conjI impI)
  assume "Parse readFile unmarshal buildMap newWatchTime path = (parsed, Some err)"
  then show "parsed = Manifest_zero" by (rule Parse_zero)
next
  assume "parseDeploymentManifest buildMap newWatchTime depManifest = (deployment, Some err)"
  then show "deployment = Manifest_zero" by (rule parseDeploymentManifest_zero)
next
  assume "Some stageErr \<in> set (stageErrors buildMap newWatchTime depManifest)"
  from parseDeploymentManifest_cause [OF this] obtain e c
    where e: "snd (parseDeploymentManifest buildMap newWatchTime depManifest) = Some e"
      and c: "cause e = Some c" "Some c \<in> set (stageErrors buildMap newWatchTime depManifest)"
    by blast
  from e have r: "parseDeploymentManifest buildMap newWatchTime depManifest =
      (Manifest_zero, Some e)"
    by (rule parseDeploymentManifest_result)
  have "Parse readFile unmarshal buildMap newWatchTime path =
      (Manifest_zero, Some (WrapError e ''Unmarshalling BOSH deployment manifest''))"
    if "readFile path = (contents, None) \<and>
        unmarshal contents manifest_zero = (depManifest, None)"
    using that r by (simp add: Parse_decoded)
  with r c show "\<exists>e c. parseDeploymentManifest buildMap newWatchTime depManifest =
                (Manifest_zero, Some e) \<and>
              cause e = Some c \<and>
              Some c \<in> set (stageErrors buildMap newWatchTime depManifest) \<and>
              (readFile path = (contents, None) \<and>
               unmarshal contents manifest_zero = (depManifest, None) \<longrightarrow>
                 Parse readFile unmarshal buildMap newWatchTime path =
                   (Manifest_zero,
                    Some (WrapError e ''Unmarshalling BOSH deployment manifest'')))"
    by blast
qed


theorem failure_returns_zero_model_witness:
  "Some ex_jobErr \<in> set (stageErrors BuildMap NewWatchTime ex_manifest_badjob) \<and>
   ex_readFile ''bad.yml'' = (''bad'', None) \<and>
   ex_unmarshal ''bad'' manifest_zero = (ex_manifest_badjob, None) \<and>
   parseDeploymentManifest BuildMap NewWatchTime ex_manifest_badjob =
     (Manifest_zero,
      Some (WrapErrorf ex_jobErr ''Parsing jobs: %#v''
              [ArgJobs (manifest.Jobs ex_manifest_badjob)])) \<and>
   Parse ex_readFile ex_unmarshal BuildMap NewWatchTime ''bad.yml'' =
     (Manifest_zero,
      Some (WrapError
              (WrapErrorf ex_jobErr ''Parsing jobs: %#v''
                 [ArgJobs (manifest.Jobs ex_manifest_badjob)])
              ''Unmarshalling BOSH deployment manifest''))"
proof -
  let ?d = "parseDeploymentManifest BuildMap NewWatchTime ex_manifest_badjob"
  let ?p = "Parse ex_readFile ex_unmarshal BuildMap NewWatchTime ''bad.yml''"
  let ?de = "WrapErrorf ex_jobErr ''Parsing jobs: %#v''
               [ArgJobs (manifest.Jobs ex_manifest_badjob)]"
  let ?pe = "WrapError ?de ''Unmarshalling BOSH deployment manifest''"
  have h1: "Some ex_jobErr \<in> set (stageErrors BuildMap NewWatchTime ex_manifest_badjob)"
    by code_simp
  have h2: "ex_readFile ''bad.yml'' = (''bad'', None)" by code_simp
  have h3: "ex_unmarshal ''bad'' manifest_zero = (ex_manifest_badjob, None)" by code_simp
  have h4: "snd ?d = Some ?de" by code_simp
  have h5: "snd ?p = Some ?pe" by code_simp
  from h4 have d: "?d = (fst ?d, Some ?de)" by (simp add: prod_eq_iff)
  from h5 have p: "?p = (fst ?p, Some ?pe)" by (simp add: prod_eq_iff)
  from failure_returns_zero_model
    [where readFile = ex_readFile and unmarshal = ex_unmarshal and buildMap = BuildMap
       and newWatchTime = NewWatchTime and path = "''bad.yml''" and contents = "''bad''"
       and depManifest = ex_manifest_badjob and stageErr = ex_jobErr
       and parsed = "fst ?p" and err = ?pe and deployment = "fst ?d"] p
  have p0: "fst ?p = Manifest_zero" by blast
  from failure_returns_zero_model
    [where readFile = ex_readFile and unmarshal = ex_unmarshal and buildMap = BuildMap
       and newWatchTime = NewWatchTime and path = "''bad.yml''" and contents = "''bad''"
       and depManifest = ex_manifest_badjob and stageErr = ex_jobErr
       and parsed = "fst ?p" and err = ?de and deployment = "fst ?d"] d
  have d0: "fst ?d = Manifest_zero" by blast
  from p p0 have "?p = (Manifest_zero, Some ?pe)" by simp
  moreover from d d0 have "?d = (Manifest_zero, Some ?de)" by simp
  ultimately show ?thesis using h1 h2 h3 by blast
qed

text \<open>
  C5. The orchestrator runs its stages in the order networks, resource pools, disk
  pools, jobs, global properties, update watch time, and returns at the first one
  that fails: the error reported is that stage's error, wrapped with the stage's
  message, whatever the later stages would do. A stage's error is reported only
  when every earlier stage succeeds, and the parse succeeds when all do.
\<close>

theorem earliest_section_error_reported:
  "(snd (parseNetworkManifests buildMap (manifest.Networks m)) = Some e \<longrightarrow>
      parseDeploymentManifest buildMap newWatchTime m =
        (Manifest_zero,
         Some (WrapErrorf e ''Parsing networks: %#v'' [ArgNetworks (manifest.Networks m)])))
   \<and>
   (snd (parseNetworkManifests buildMap (manifest.Networks m)) = None \<and>
    snd (parseResourcePoolManifests buildMap (manifest.ResourcePools m)) = Some e \<longrightarrow>
      parseDeploymentManifest buildMap newWatchTime m =
        (Manifest_zero,
         Some (WrapErrorf e ''Parsing resource_pools: %#v''
                 [ArgResourcePools (manifest.ResourcePools m)])))
   \<and>
   (snd (parseNetworkManifests buildMap (manifest.Networks m)) = None \<and>
    snd (parseResourcePoolManifests buildMap (manifest.ResourcePools m)) = None \<and>
    snd (parseDiskPoolManifests buildMap (manifest.DiskPools m)) = Some e \<longrightarrow>
      parseDeploymentManifest buildMap newWatchTime m =
        (Manifest_zero,
         Some (WrapErrorf e ''Parsing disk_pools: %#v''
                 [ArgDiskPools (manifest.DiskPools m)])))
   \<and>
   (snd (parseNetworkManifests buildMap (manifest.Networks m)) = None \<and>
    snd (parseResourcePoolManifests buildMap (manifest.ResourcePools m)) = None \<and>
    snd (parseDiskPoolManifests buildMap (manifest.DiskPools m)) = None \<and>
    snd (parseJobManifests buildMap (manifest.Jobs m)) = Some e \<longrightarrow>
      parseDeploymentManifest buildMap newWatchTime m =
        (Manifest_zero,
         Some (WrapErrorf e ''Parsing jobs: %#v'' [ArgJobs (manifest.Jobs m)])))
   \<and>
   (snd (parseNetworkManifests buildMap (manifest.Networks m)) = None \<and>
    snd (parseResourcePoolManifests buildMap (manifest.ResourcePools m)) = None \<and>
    snd (parseDiskPoolManifests buildMap (manifest.DiskPools m)) = None \<and>
    snd (parseJobManifests buildMap (manifest.Jobs m)) = None \<and>
    snd (buildMap (manifest.Properties m)) = Some e \<longrightarrow>
      parseDeploymentManifest buildMap newWatchTime m =
        (Manifest_zero,
         Some (WrapErrorf e ''Parsing global manifest properties: %#v''
                 [ArgProperties (manifest.Properties m)])))
   \<and>
   (snd (parseNetworkManifests buildMap (manifest.Networks m)) = None \<and>
    snd (parseResourcePoolManifests buildMap (manifest.ResourcePools m)) = None \<and>
    snd (parseDiskPoolManifests buildMap (manifest.DiskPools m)) = None \<and>
    snd (parseJobManifests buildMap (manifest.Jobs m)) = None \<and>
    snd (buildMap (manifest.Properties m)) = None \<and>
    UpdateSpec.UpdateWatchTime (manifest.Update m) = Some expression \<and>
    snd (newWatchTime expression) = Some e \<longrightarrow>
      parseDeploymentManifest buildMap newWatchTime m =
        (Manifest_zero, Some (WrapError e ''Parsing update watch time'')))
   \<and>
   ((\<forall>s\<in>set (stageErrors buildMap newWatchTime m). s = None) \<longrightarrow>
      snd (parseDeploymentManifest buildMap newWatchTime m) = None)"
  by (intro conjI impI parseDeploymentManifest_result parseDeploymentManifest_succeeds)
     (simp_all add: parseDeploymentManifest_snd)


theorem earliest_section_error_reported_witness:
  "snd (parseNetworkManifests BuildMap (manifest.Networks ex_manifest_twobad)) =
     Some ex_networkErr \<and>
   snd (parseJobManifests BuildMap (manifest.Jobs ex_manifest_twobad)) = Some ex_jobErr \<and>
   parseDeploymentManifest BuildMap NewWatchTime ex_manifest_twobad =
     (Manifest_zero,
      Some (WrapErrorf ex_networkErr ''Parsing networks: %#v''
              [ArgNetworks (manifest.Networks ex_manifest_twobad)])) \<and>
   parseDeploymentManifest BuildMap NewWatchTime ex_manifest_badpool =
     (Manifest_zero,
      Some (WrapErrorf ex_poolErr ''Parsing resource_pools: %#v''
              [ArgResourcePools (manifest.ResourcePools ex_manifest_badpool)])) \<and>
   parseDeploymentManifest BuildMap NewWatchTime ex_manifest_baddisk =
     (Manifest_zero,
      Some (WrapErrorf ex_diskErr ''Parsing disk_pools: %#v''
              [ArgDiskPools (manifest.DiskPools ex_manifest_baddisk)])) \<and>
   parseDeploymentManifest BuildMap NewWatchTime ex_manifest_badjob =
     (Manifest_zero,
      Some (WrapErrorf ex_jobErr ''Parsing jobs: %#v''
              [ArgJobs (manifest.Jobs ex_manifest_badjob)])) \<and>
   parseDeploymentManifest BuildMap NewWatchTime ex_manifest_badprops =
     (Manifest_zero,
      Some (WrapErrorf ex_keyErr ''Parsing global manifest properties: %#v''
              [ArgProperties (manifest.Properties ex_manifest_badprops)])) \<and>
   parseDeploymentManifest BuildMap NewWatchTime ex_manifest_badwatch =
     (Manifest_zero, Some (WrapError ex_watchErr ''Parsing update watch time'')) \<and>
   snd (parseDeploymentManifest BuildMap NewWatchTime ex_manifest) = None"
proof -
  note t = earliest_section_error_reported
    [where buildMap = BuildMap and newWatchTime = NewWatchTime]
  have n1: "snd (parseNetworkManifests BuildMap (manifest.Networks ex_manifest_twobad)) =
      Some ex_networkErr"
    by code_simp
  have j1: "snd (parseJobManifests BuildMap (manifest.Jobs ex_manifest_twobad)) =
      Some ex_jobErr"
    by code_simp
  from t [where m = ex_manifest_twobad and e = ex_networkErr] n1
  have r1: "parseDeploymentManifest BuildMap NewWatchTime ex_manifest_twobad =
     (Manifest_zero,
      Some (WrapErrorf ex_networkErr ''Parsing networks: %#v''
              [ArgNetworks (manifest.Networks ex_manifest_twobad)]))"
    by blast
  have n2: "snd (parseNetworkManifests BuildMap (manifest.Networks ex_manifest_badpool)) = None"
    by code_simp
  have p2: "snd (parseResourcePoolManifests BuildMap
                   (manifest.ResourcePools ex_manifest_badpool)) = Some ex_poolErr"
    by code_simp
  from t [where m = ex_manifest_badpool and e = ex_poolErr] n2 p2
  have r2: "parseDeploymentManifest BuildMap NewWatchTime ex_manifest_badpool =
     (Manifest_zero,
      Some (WrapErrorf ex_poolErr ''Parsing resource_pools: %#v''
              [ArgResourcePools (manifest.ResourcePools ex_manifest_badpool)]))"
    by blast
  have n3: "snd (parseNetworkManifests BuildMap (manifest.Networks ex_manifest_baddisk)) = None"
    by code_simp
  have p3: "snd (parseResourcePoolManifests BuildMap
                   (manifest.ResourcePools ex_manifest_baddisk)) = None"
    by code_simp
  have d3: "snd (parseDiskPoolManifests BuildMap (manifest.DiskPools ex_manifest_baddisk)) =
      Some ex_diskErr"
    by code_simp
  from t [where m = ex_manifest_baddisk and e = ex_diskErr] n3 p3 d3
  have r3: "parseDeploymentManifest BuildMap NewWatchTime ex_manifest_baddisk =
     (Manifest_zero,
      Some (WrapErrorf ex_diskErr ''Parsing disk_pools: %#v''
              [ArgDiskPools (manifest.DiskPools ex_manifest_baddisk)]))"
    by blast
  have n4: "snd (parseNetworkManifests BuildMap (manifest.Networks ex_manifest_badjob)) = None"
    by code_simp
  have p4: "snd (parseResourcePoolManifests BuildMap
                   (manifest.ResourcePools ex_manifest_badjob)) = None"
    by code_simp
  have d4: "snd (parseDiskPoolManifests BuildMap (manifest.DiskPools ex_manifest_badjob)) = None"
    by code_simp
  have j4: "snd (parseJobManifests BuildMap (manifest.Jobs ex_manifest_badjob)) = Some ex_jobErr"
    by code_simp
  from t [where m = ex_manifest_badjob and e = ex_jobErr] n4 p4 d4 j4
  have r4: "parseDeploymentManifest BuildMap NewWatchTime ex_manifest_badjob =
     (Manifest_zero,
      Some (WrapErrorf ex_jobErr ''Parsing jobs: %#v''
              [ArgJobs (manifest.Jobs ex_manifest_badjob)]))"
    by blast
  have n5: "snd (parseNetworkManifests BuildMap (manifest.Networks ex_manifest_badprops)) = None"
    by code_simp
  have p5: "snd (parseResourcePoolManifests BuildMap
                   (manifest.ResourcePools ex_manifest_badprops)) = None"
    by code_simp
  have d5: "snd (parseDiskPoolManifests BuildMap (manifest.DiskPools ex_manifest_badprops)) = None"
    by code_simp
  have j5: "snd (parseJobManifests BuildMap (manifest.Jobs ex_manifest_badprops)) = None"
    by code_simp
  have g5: "snd (BuildMap (manifest.Properties ex_manifest_badprops)) = Some ex_keyErr"
    by code_simp
  from t [where m = ex_manifest_badprops and e = ex_keyErr] n5 p5 d5 j5 g5
  have r5: "parseDeploymentManifest BuildMap NewWatchTime ex_manifest_badprops =
     (Manifest_zero,
      Some (WrapErrorf ex_keyErr ''Parsing global manifest properties: %#v''
              [ArgProperties (manifest.Properties ex_manifest_badprops)]))"
    by blast
  have n6: "snd (parseNetworkManifests BuildMap (manifest.Networks ex_manifest_badwatch)) = None"
    by code_simp
  have p6: "snd (parseResourcePoolManifests BuildMap
                   (manifest.ResourcePools ex_manifest_badwatch)) = None"
    by code_simp
  have d6: "snd (parseDiskPoolManifests BuildMap (manifest.DiskPools ex_manifest_badwatch)) = None"
    by code_simp
  have j6: "snd (parseJobManifests BuildMap (manifest.Jobs ex_manifest_badwatch)) = None"
    by code_simp
  have g6: "snd (BuildMap (manifest.Properties ex_manifest_badwatch)) = None"
    by code_simp
  have u6: "UpdateSpec.UpdateWatchTime (manifest.Update ex_manifest_badwatch) = Some ''50-20''"
    by code_simp
  have w6: "snd (NewWatchTime ''50-20'') = Some ex_watchErr"
    by code_simp
  from t [where m = ex_manifest_badwatch and e = ex_watchErr and expression = "''50-20''"]
    n6 p6 d6 j6 g6 u6 w6
  have r6: "parseDeploymentManifest BuildMap NewWatchTime ex_manifest_badwatch =
     (Manifest_zero, Some (WrapError ex_watchErr ''Parsing update watch time''))"
    by blast
  have a7: "\<forall>s\<in>set (stageErrors BuildMap NewWatchTime ex_manifest). s = None"
    by code_simp
  from t [where m = ex_manifest] a7
  have r7: "snd (parseDeploymentManifest BuildMap NewWatchTime ex_manifest) = None"
    by blast
  from n1 j1 r1 r2 r3 r4 r5 r6 r7 show ?thesis by blast
qed

text \<open>
  C9. The job parser calls the property tree builder only on properties blocks that
  are present: its result is the same for any two builders that agree on the
  present blocks of the input, so it can fail only at an entry whose properties
  block is present and rejected by the builder. On success, a job whose properties
  block is absent has the nil property map, and a job whose templates or networks
  are absent has the nil slice for them.
\<close>

theorem absent_job_blocks_stay_nil:
  "((\<forall>rawJob\<in>set (slice_elems rawJobs).
       job.Properties rawJob \<noteq> None \<longrightarrow>
         buildMap (job.Properties rawJob) = buildMap' (job.Properties rawJob)) \<longrightarrow>
      parseJobManifests buildMap rawJobs = parseJobManifests buildMap' rawJobs)
   \<and>
   (snd (parseJobManifests buildMap rawJobs) \<noteq> None \<longrightarrow>
      (\<exists>rawJob\<in>set (slice_elems rawJobs).
         job.Properties rawJob \<noteq> None \<and> snd (buildMap (job.Properties rawJob)) \<noteq> None))
   \<and>
   (parseJobManifests buildMap rawJobs = (jobs, None) \<longrightarrow>
      (\<exists>out. jobs = Some out \<and> length out = slice_len rawJobs \<and>
         (\<forall>i<length out.
            (job.Properties (slice_elems rawJobs ! i) = None \<longrightarrow>
               Job.Properties (out ! i) = None) \<and>
            (job.Templates (slice_elems rawJobs ! i) = None \<longrightarrow>
               Job.Templates (out ! i) = None) \<and>
            (job.Networks (slice_elems rawJobs ! i) = None \<longrightarrow>
               Job.Networks (out ! i) = None))))"
proof (intro conjI impI)
  assume "\<forall>rawJob\<in>set (slice_elems rawJobs).
       job.Properties rawJob \<noteq> None \<longrightarrow>
         buildMap (job.Properties rawJob) = buildMap' (job.Properties rawJob)"
  then have "\<forall>rawJob\<in>set (slice_elems rawJobs). jobEntry buildMap rawJob = jobEntry buildMap' rawJob"
    by (blast intro: jobEntry_cong)
  then show "parseJobManifests buildMap rawJobs = parseJobManifests buildMap' rawJobs"
    unfolding parseJobManifests_fill by (rule fillSlice_cong)
next
  assume "snd (parseJobManifests buildMap rawJobs) \<noteq> None"
  then have "firstError (jobEntry buildMap) (slice_elems rawJobs) \<noteq> None"
    by (simp add: parseJobManifests_fill fillSlice_snd)
  then obtain rawJob e where "rawJob \<in> set (slice_elems rawJobs)"
    and "jobEntry buildMap rawJob = Inl e"
    unfolding firstError_Some_iff by blast
  then show "\<exists>rawJob\<in>set (slice_elems rawJobs).
         job.Properties rawJob \<noteq> None \<and> snd (buildMap (job.Properties rawJob)) \<noteq> None"
    by (blast dest: jobEntry_Inl)
next
  assume "parseJobManifests buildMap rawJobs = (jobs, None)"
  from parseJobManifests_nth [OF this] obtain out
    where o: "jobs = Some out" "length out = slice_len rawJobs"
      and e: "\<forall>i<length out. jobEntry buildMap (slice_elems rawJobs ! i) = Inr (out ! i)"
    by blast
  have "(job.Properties (slice_elems rawJobs ! i) = None \<longrightarrow> Job.Properties (out ! i) = None) \<and>
        (job.Templates (slice_elems rawJobs ! i) = None \<longrightarrow> Job.Templates (out ! i) = None) \<and>
        (job.Networks (slice_elems rawJobs ! i) = None \<longrightarrow> Job.Networks (out ! i) = None)"
    if "i < length out" for i
  proof -
    from e that have "jobEntry buildMap (slice_elems rawJobs ! i) = Inr (out ! i)" by simp
    from jobEntry_Inr [OF this] show ?thesis
      by (metis (no_types, lifting) Job.select_convs(6,7,8) option.simps(4,8))
  qed
  with o show "\<exists>out. jobs = Some out \<and> length out = slice_len rawJobs \<and>
         (\<forall>i<length out.
            (job.Properties (slice_elems rawJobs ! i) = None \<longrightarrow>
               Job.Properties (out ! i) = None) \<and>
            (job.Templates (slice_elems rawJobs ! i) = None \<longrightarrow>
               Job.Templates (out ! i) = None) \<and>
            (job.Networks (slice_elems rawJobs ! i) = None \<longrightarrow>
               Job.Networks (out ! i) = None))"
    by blast
qed


theorem absent_job_blocks_stay_nil_witness:
  "BuildMap None = (Some [], None) \<and>
   snd (ex_strictBuildMap None) \<noteq> None \<and>
   BuildMap (job.Properties ex_errand) = ex_strictBuildMap (job.Properties ex_errand) \<and>
   parseJobManifests BuildMap (Some [ex_job, ex_errand]) =
     parseJobManifests ex_strictBuildMap (Some [ex_job, ex_errand]) \<and>
   snd (parseJobManifests ex_strictBuildMap (Some [ex_job, ex_errand])) = None \<and>
   snd (parseJobManifests BuildMap (manifest.Jobs ex_manifest_badjob)) \<noteq> None \<and>
   (\<exists>rawJob\<in>set (slice_elems (manifest.Jobs ex_manifest_badjob)).
      job.Properties rawJob \<noteq> None \<and> snd (BuildMap (job.Properties rawJob)) \<noteq> None) \<and>
   (\<exists>out. fst (parseJobManifests BuildMap (Some [ex_job, ex_errand])) = Some out \<and>
      length out = 2 \<and>
      Job.Properties (out ! 0) = None \<and> Job.Networks (out ! 0) = None \<and>
      Job.Templates (out ! 1) = None)"
proof -
  let ?jobs = "Some [ex_job, ex_errand]"
  let ?j = "parseJobManifests BuildMap ?jobs"
  have b: "BuildMap None = (Some [], None)" by code_simp
  have s: "snd (ex_strictBuildMap None) \<noteq> None" by code_simp
  have h1: "\<forall>rawJob\<in>set (slice_elems ?jobs).
      job.Properties rawJob \<noteq> None \<longrightarrow>
        BuildMap (job.Properties rawJob) = ex_strictBuildMap (job.Properties rawJob)"
    by (auto simp: ex_strictBuildMap_def split: option.splits)
  from absent_job_blocks_stay_nil
    [where rawJobs = ?jobs and buildMap = BuildMap and buildMap' = ex_strictBuildMap] h1
  have r1: "?j = parseJobManifests ex_strictBuildMap ?jobs" by blast
  have h3: "snd ?j = None" by code_simp
  with r1 have r1': "snd (parseJobManifests ex_strictBuildMap ?jobs) = None" by simp
  have h2: "snd (parseJobManifests BuildMap (manifest.Jobs ex_manifest_badjob)) \<noteq> None"
    by code_simp
  from absent_job_blocks_stay_nil
    [where rawJobs = "manifest.Jobs ex_manifest_badjob" and buildMap = BuildMap] h2
  have r2: "\<exists>rawJob\<in>set (slice_elems (manifest.Jobs ex_manifest_badjob)).
      job.Properties rawJob \<noteq> None \<and> snd (BuildMap (job.Properties rawJob)) \<noteq> None"
    by blast
  from h3 have j: "?j = (fst ?j, None)" by (simp add: prod_eq_iff)
  have n: "job.Properties ex_job = None" "job.Networks ex_job = None"
    "job.Templates ex_errand = None"
    by (simp_all add: ex_job_def ex_errand_def)
  from absent_job_blocks_stay_nil
    [where rawJobs = ?jobs and buildMap = BuildMap and jobs = "fst ?j"] j
  obtain out where o: "fst ?j = Some out" "length out = slice_len ?jobs"
    and a: "\<forall>i<length out.
            (job.Properties (slice_elems ?jobs ! i) = None \<longrightarrow> Job.Properties (out ! i) = None) \<and>
            (job.Templates (slice_elems ?jobs ! i) = None \<longrightarrow> Job.Templates (out ! i) = None) \<and>
            (job.Networks (slice_elems ?jobs ! i) = None \<longrightarrow> Job.Networks (out ! i) = None)"
    by blast
  from o have l: "length out = 2" by (simp add: slice_len_def)
  from a l n have "Job.Properties (out ! 0) = None \<and> Job.Networks (out ! 0) = None"
    by (simp add: slice_elems_def)
  moreover from a l n have "Job.Templates (out ! 1) = None"
    by (simp add: slice_elems_def)
  ultimately have r3: "\<exists>out. fst ?j = Some out \<and> length out = 2 \<and>
      Job.Properties (out ! 0) = None \<and> Job.Networks (out ! 0) = None \<and>
      Job.Templates (out ! 1) = None"
    using o l by blast
  have e: "BuildMap (job.Properties ex_errand) = ex_strictBuildMap (job.Properties ex_errand)"
    by code_simp
  from b s e r1 r1' h2 r2 r3 show ?thesis by blast
qed

text \<open>
  C10. The resource pool parser fails exactly when the property tree builder
  rejects the \<open>cloud_properties\<close> or the \<open>env\<close> block of some entry, and the disk pool
  parser exactly when it rejects the \<open>cloud_properties\<close> of some entry. The error is
  that of the first such entry in order (within a resource pool, \<open>cloud_properties\<close>
  before \<open>env\<close>), wrapped with the entry's name. On success the scalar fields (name,
  network, disk size) of every entry are copied unchanged, whatever their value.
\<close>

theorem pool_parsers_fail_only_on_BuildMap:
  "(snd (parseResourcePoolManifests buildMap rawResourcePools) \<noteq> None \<longleftrightarrow>
      (\<exists>r\<in>set (slice_elems rawResourcePools).
         snd (buildMap (resourcePool.CloudProperties r)) \<noteq> None \<or>
         snd (buildMap (resourcePool.Env r)) \<noteq> None))
   \<and>
   (snd (parseDiskPoolManifests buildMap rawDiskPools) \<noteq> None \<longleftrightarrow>
      (\<exists>r\<in>set (slice_elems rawDiskPools).
         snd (buildMap (diskPool.CloudProperties r)) \<noteq> None))
   \<and>
   (i < slice_len rawResourcePools \<and>
    (\<forall>k<i. snd (buildMap (resourcePool.CloudProperties (slice_elems rawResourcePools ! k))) = None \<and>
           snd (buildMap (resourcePool.Env (slice_elems rawResourcePools ! k))) = None) \<and>
    snd (buildMap (resourcePool.CloudProperties (slice_elems rawResourcePools ! i))) = Some e \<longrightarrow>
      snd (parseResourcePoolManifests buildMap rawResourcePools) =
        Some (WrapErrorf e ''Parsing resource_pool '%s' cloud_properties: %#v''
                [ArgString (resourcePool.Name (slice_elems rawResourcePools ! i)),
                 ArgProperties (resourcePool.CloudProperties (slice_elems rawResourcePools ! i))]))
   \<and>
   (i < slice_len rawResourcePools \<and>
    (\<forall>k<i. snd (buildMap (resourcePool.CloudProperties (slice_elems rawResourcePools ! k))) = None \<and>
           snd (buildMap (resourcePool.Env (slice_elems rawResourcePools ! k))) = None) \<and>
    snd (buildMap (resourcePool.CloudProperties (slice_elems rawResourcePools ! i))) = None \<and>
    snd (buildMap (resourcePool.Env (slice_elems rawResourcePools ! i))) = Some e \<longrightarrow>
      snd (parseResourcePoolManifests buildMap rawResourcePools) =
        Some (WrapErrorf e ''Parsing resource_pool '%s' env: %#v''
                [ArgString (resourcePool.Name (slice_elems rawResourcePools ! i)),
                 ArgProperties (resourcePool.Env (slice_elems rawResourcePools ! i))]))
   \<and>
   (j < slice_len rawDiskPools \<and>
    (\<forall>k<j. snd (buildMap (diskPool.CloudProperties (slice_elems rawDiskPools ! k))) = None) \<and>
    snd (buildMap (diskPool.CloudProperties (slice_elems rawDiskPools ! j))) = Some e \<longrightarrow>
      snd (parseDiskPoolManifests buildMap rawDiskPools) =
        Some (WrapErrorf e ''Parsing disk_pool '%s' cloud_properties: %#v''
                [ArgString (diskPool.Name (slice_elems rawDiskPools ! j)),
                 ArgProperties (diskPool.CloudProperties (slice_elems rawDiskPools ! j))]))
   \<and>
   (parseResourcePoolManifests buildMap rawResourcePools = (resourcePools, None) \<longrightarrow>
      (\<exists>out. resourcePools = Some out \<and> length out = slice_len rawResourcePools \<and>
         (\<forall>i<length out.
            ResourcePool.Name (out ! i) = resourcePool.Name (slice_elems rawResourcePools ! i) \<and>
            ResourcePool.Network (out ! i) =
              resourcePool.Network (slice_elems rawResourcePools ! i))))
   \<and>
   (parseDiskPoolManifests buildMap rawDiskPools = (diskPools, None) \<longrightarrow>
      (\<exists>out. diskPools = Some out \<and> length out = slice_len rawDiskPools \<and>
         (\<forall>i<length out.
            DiskPool.Name (out ! i) = diskPool.Name (slice_elems rawDiskPools ! i) \<and>
            DiskPool.DiskSize (out ! i) = diskPool.DiskSize (slice_elems rawDiskPools ! i))))"
proof (intro conjI impI)
  show "snd (parseResourcePoolManifests buildMap rawResourcePools) \<noteq> None \<longleftrightarrow>
      (\<exists>r\<in>set (slice_elems rawResourcePools).
         snd (buildMap (resourcePool.CloudProperties r)) \<noteq> None \<or>
         snd (buildMap (resourcePool.Env r)) \<noteq> None)"
    by (rule parseResourcePoolManifests_fails_iff)
  show "snd (parseDiskPoolManifests buildMap rawDiskPools) \<noteq> None \<longleftrightarrow>
      (\<exists>r\<in>set (slice_elems rawDiskPools).
         snd (buildMap (diskPool.CloudProperties r)) \<noteq> None)"
    by (rule parseDiskPoolManifests_fails_iff)
next
  assume a: "i < slice_len rawResourcePools \<and>
    (\<forall>k<i. snd (buildMap (resourcePool.CloudProperties (slice_elems rawResourcePools ! k))) = None \<and>
           snd (buildMap (resourcePool.Env (slice_elems rawResourcePools ! k))) = None) \<and>
    snd (buildMap (resourcePool.CloudProperties (slice_elems rawResourcePools ! i))) = Some e"
  then have "resourcePoolEntry buildMap (slice_elems rawResourcePools ! i) =
      Inl (WrapErrorf e ''Parsing resource_pool '%s' cloud_properties: %#v''
                [ArgString (resourcePool.Name (slice_elems rawResourcePools ! i)),
                 ArgProperties (resourcePool.CloudProperties (slice_elems rawResourcePools ! i))])"
    by (simp add: resourcePoolEntry_cloud)
  with a show "snd (parseResourcePoolManifests buildMap rawResourcePools) =
        Some (WrapErrorf e ''Parsing resource_pool '%s' cloud_properties: %#v''
                [ArgString (resourcePool.Name (slice_elems rawResourcePools ! i)),
                 ArgProperties (resourcePool.CloudProperties (slice_elems rawResourcePools ! i))])"
    by (intro parseResourcePoolManifests_first [of i]) simp_all
next
  assume a: "i < slice_len rawResourcePools \<and>
    (\<forall>k<i. snd (buildMap (resourcePool.CloudProperties (slice_elems rawResourcePools ! k))) = None \<and>
           snd (buildMap (resourcePool.Env (slice_elems rawResourcePools ! k))) = None) \<and>
    snd (buildMap (resourcePool.CloudProperties (slice_elems rawResourcePools ! i))) = None \<and>
    snd (buildMap (resourcePool.Env (slice_elems rawResourcePools ! i))) = Some e"
  then have "resourcePoolEntry buildMap (slice_elems rawResourcePools ! i) =
      Inl (WrapErrorf e ''Parsing resource_pool '%s' env: %#v''
                [ArgString (resourcePool.Name (slice_elems rawResourcePools ! i)),
                 ArgProperties (resourcePool.Env (slice_elems rawResourcePools ! i))])"
    by (simp add: resourcePoolEntry_env)
  with a show "snd (parseResourcePoolManifests buildMap rawResourcePools) =
        Some (WrapErrorf e ''Parsing resource_pool '%s' env: %#v''
                [ArgString (resourcePool.Name (slice_elems rawResourcePools ! i)),
                 ArgProperties (resourcePool.Env (slice_elems rawResourcePools ! i))])"
    by (intro parseResourcePoolManifests_first [of i]) simp_all
next
  assume a: "j < slice_len rawDiskPools \<and>
    (\<forall>k<j. snd (buildMap (diskPool.CloudProperties (slice_elems rawDiskPools ! k))) = None) \<and>
    snd (buildMap (diskPool.CloudProperties (slice_elems rawDiskPools ! j))) = Some e"
  then have "diskPoolEntry buildMap (slice_elems rawDiskPools ! j) =
      Inl (WrapErrorf e ''Parsing disk_pool '%s' cloud_properties: %#v''
                [ArgString (diskPool.Name (slice_elems rawDiskPools ! j)),
                 ArgProperties (diskPool.CloudProperties (slice_elems rawDiskPools ! j))])"
    by (simp add: diskPoolEntry_cloud)
  with a show "snd (parseDiskPoolManifests buildMap rawDiskPools) =
        Some (WrapErrorf e ''Parsing disk_pool '%s' cloud_properties: %#v''
                [ArgString (diskPool.Name (slice_elems rawDiskPools ! j)),
                 ArgProperties (diskPool.CloudProperties (slice_elems rawDiskPools ! j))])"
    by (intro parseDiskPoolManifests_first [of j]) simp_all
next
  assume "parseResourcePoolManifests buildMap rawResourcePools = (resourcePools, None)"
  then show "\<exists>out. resourcePools = Some out \<and> length out = slice_len rawResourcePools \<and>
         (\<forall>i<length out.
            ResourcePool.Name (out ! i) = resourcePool.Name (slice_elems rawResourcePools ! i) \<and>
            ResourcePool.Network (out ! i) =
              resourcePool.Network (slice_elems rawResourcePools ! i))"
    by (rule parseResourcePoolManifests_scalars)
next
  assume "parseDiskPoolManifests buildMap rawDiskPools = (diskPools, None)"
  then show "\<exists>out. diskPools = Some out \<and> length out = slice_len rawDiskPools \<and>
         (\<forall>i<length out.
            DiskPool.Name (out ! i) = diskPool.Name (slice_elems rawDiskPools ! i) \<and>
            DiskPool.DiskSize (out ! i) = diskPool.DiskSize (slice_elems rawDiskPools ! i))"
    by (rule parseDiskPoolManifests_scalars)
qed


theorem pool_parsers_fail_only_on_BuildMap_witness:
  "snd (parseResourcePoolManifests BuildMap ex_resourcePools_bad) = Some ex_poolErr \<and>
   snd (parseResourcePoolManifests BuildMap ex_resourcePools_cloud) = Some ex_poolCloudErr \<and>
   snd (parseDiskPoolManifests BuildMap ex_diskPools_bad) = Some ex_diskErr \<and>
   (\<exists>r\<in>set (slice_elems ex_resourcePools_bad).
      snd (BuildMap (resourcePool.CloudProperties r)) \<noteq> None \<or>
      snd (BuildMap (resourcePool.Env r)) \<noteq> None) \<and>
   (\<exists>r\<in>set (slice_elems ex_diskPools_bad). snd (BuildMap (diskPool.CloudProperties r)) \<noteq> None) \<and>
   snd (parseResourcePoolManifests BuildMap (Some [ex_resourcePool])) = None \<and>
   snd (parseDiskPoolManifests BuildMap (Some [ex_diskPool])) = None \<and>
   (\<exists>out. fst (parseResourcePoolManifests BuildMap (Some [ex_resourcePool])) = Some out \<and>
      length out = 1 \<and> ResourcePool.Name (out ! 0) = [] \<and> ResourcePool.Network (out ! 0) = []) \<and>
   (\<exists>out. fst (parseDiskPoolManifests BuildMap (Some [ex_diskPool])) = Some out \<and>
      length out = 1 \<and> DiskPool.Name (out ! 0) = ''disks'' \<and> DiskPool.DiskSize (out ! 0) = - 5)"
proof -
  note t = pool_parsers_fail_only_on_BuildMap [where buildMap = BuildMap]
  let ?rb = "slice_elems ex_resourcePools_bad"
  let ?rc = "slice_elems ex_resourcePools_cloud"
  let ?db = "slice_elems ex_diskPools_bad"
  have b1: "1 < slice_len ex_resourcePools_bad" by code_simp
  have b2: "snd (BuildMap (resourcePool.CloudProperties (?rb ! 0))) = None"
    "snd (BuildMap (resourcePool.Env (?rb ! 0))) = None"
    "snd (BuildMap (resourcePool.CloudProperties (?rb ! 1))) = None"
    by code_simp+
  have b3: "snd (BuildMap (resourcePool.Env (?rb ! 1))) = Some ex_keyErr" by code_simp
  have b4: "resourcePool.Name (?rb ! 1) = []" "resourcePool.Env (?rb ! 1) = ex_badProperties"
    by code_simp+
  from t [where rawResourcePools = ex_resourcePools_bad and i = 1 and e = ex_keyErr]
    b1 b2 b3
  have "snd (parseResourcePoolManifests BuildMap ex_resourcePools_bad) =
      Some (WrapErrorf ex_keyErr ''Parsing resource_pool '%s' env: %#v''
              [ArgString (resourcePool.Name (?rb ! 1)), ArgProperties (resourcePool.Env (?rb ! 1))])"
    by simp
  then have r1: "snd (parseResourcePoolManifests BuildMap ex_resourcePools_bad) = Some ex_poolErr"
    by (simp only: b4 ex_poolErr_def)
  have c1: "0 < slice_len ex_resourcePools_cloud" by code_simp
  have c2: "snd (BuildMap (resourcePool.CloudProperties (?rc ! 0))) = Some ex_keyErr"
    by code_simp
  have c3: "resourcePool.Name (?rc ! 0) = []"
    "resourcePool.CloudProperties (?rc ! 0) = ex_badProperties"
    by code_simp+
  from t [where rawResourcePools = ex_resourcePools_cloud and i = 0 and e = ex_keyErr] c1 c2
  have "snd (parseResourcePoolManifests BuildMap ex_resourcePools_cloud) =
      Some (WrapErrorf ex_keyErr ''Parsing resource_pool '%s' cloud_properties: %#v''
              [ArgString (resourcePool.Name (?rc ! 0)),
               ArgProperties (resourcePool.CloudProperties (?rc ! 0))])"
    by simp
  then have r2: "snd (parseResourcePoolManifests BuildMap ex_resourcePools_cloud) =
      Some ex_poolCloudErr"
    by (simp only: c3 ex_poolCloudErr_def)
  have d1: "1 < slice_len ex_diskPools_bad" by code_simp
  have d2: "snd (BuildMap (diskPool.CloudProperties (?db ! 0))) = None" by code_simp
  have d3: "snd (BuildMap (diskPool.CloudProperties (?db ! 1))) = Some ex_keyErr" by code_simp
  have d4: "diskPool.Name (?db ! 1) = ''disks''"
    "diskPool.CloudProperties (?db ! 1) = ex_badProperties"
    by code_simp+
  from t [where rawDiskPools = ex_diskPools_bad and j = 1 and e = ex_keyErr] d1 d2 d3
  have "snd (parseDiskPoolManifests BuildMap ex_diskPools_bad) =
      Some (WrapErrorf ex_keyErr ''Parsing disk_pool '%s' cloud_properties: %#v''
              [ArgString (diskPool.Name (?db ! 1)),
               ArgProperties (diskPool.CloudProperties (?db ! 1))])"
    by simp
  then have r3: "snd (parseDiskPoolManifests BuildMap ex_diskPools_bad) = Some ex_diskErr"
    by (simp only: d4 ex_diskErr_def)
  from t [where rawResourcePools = ex_resourcePools_bad] r1
  have r4: "\<exists>r\<in>set ?rb.
      snd (BuildMap (resourcePool.CloudProperties r)) \<noteq> None \<or>
      snd (BuildMap (resourcePool.Env r)) \<noteq> None"
    by simp
  from t [where rawDiskPools = ex_diskPools_bad] r3
  have r5: "\<exists>r\<in>set ?db. snd (BuildMap (diskPool.CloudProperties r)) \<noteq> None"
    by simp
  let ?p = "parseResourcePoolManifests BuildMap (Some [ex_resourcePool])"
  let ?q = "parseDiskPoolManifests BuildMap (Some [ex_diskPool])"
  have h6: "snd ?p = None" by code_simp
  have h7: "snd ?q = None" by code_simp
  from h6 have p: "?p = (fst ?p, None)" by (simp add: prod_eq_iff)
  from h7 have q: "?q = (fst ?q, None)" by (simp add: prod_eq_iff)
  have f: "resourcePool.Name ex_resourcePool = []" "resourcePool.Network ex_resourcePool = []"
    "diskPool.Name ex_diskPool = ''disks''" "diskPool.DiskSize ex_diskPool = - 5"
    by (simp_all add: ex_resourcePool_def ex_diskPool_def)
  note t6 = t [THEN conjunct2, THEN conjunct2, THEN conjunct2, THEN conjunct2,
    THEN conjunct2, THEN conjunct1, THEN mp]
  note t7 = t [THEN conjunct2, THEN conjunct2, THEN conjunct2, THEN conjunct2,
    THEN conjunct2, THEN conjunct2, THEN mp]
  from t6 [OF p]
  obtain out where o: "fst ?p = Some out" "length out = slice_len (Some [ex_resourcePool])"
    and a: "\<forall>i<length out.
            ResourcePool.Name (out ! i) =
              resourcePool.Name (slice_elems (Some [ex_resourcePool]) ! i) \<and>
            ResourcePool.Network (out ! i) =
              resourcePool.Network (slice_elems (Some [ex_resourcePool]) ! i)"
    by blast
  from o have l: "length out = 1" by (simp add: slice_len_def)
  with a f have "ResourcePool.Name (out ! 0) = [] \<and> ResourcePool.Network (out ! 0) = []"
    by (simp add: slice_elems_def)
  with o l have r6: "\<exists>out. fst ?p = Some out \<and> length out = 1 \<and>
      ResourcePool.Name (out ! 0) = [] \<and> ResourcePool.Network (out ! 0) = []"
    by blast
  from t7 [OF q]
  obtain out' where o': "fst ?q = Some out'" "length out' = slice_len (Some [ex_diskPool])"
    and a': "\<forall>i<length out'.
            DiskPool.Name (out' ! i) = diskPool.Name (slice_elems (Some [ex_diskPool]) ! i) \<and>
            DiskPool.DiskSize (out' ! i) =
              diskPool.DiskSize (slice_elems (Some [ex_diskPool]) ! i)"
    by blast
  from o' have l': "length out' = 1" by (simp add: slice_len_def)
  with a' f have "DiskPool.Name (out' ! 0) = ''disks'' \<and> DiskPool.DiskSize (out' ! 0) = - 5"
    by (simp add: slice_elems_def)
  with o' l' have r7: "\<exists>out. fst ?q = Some out \<and> length out = 1 \<and>
      DiskPool.Name (out ! 0) = ''disks'' \<and> DiskPool.DiskSize (out ! 0) = - 5"
    by blast
  from r1 r2 r3 r4 r5 h6 h7 r6 r7 show ?thesis by blast
qed

end
